theory Spec2Isabelle
  imports Main "HOL-Library.Word"
begin

section \<open>Kerberos salt retrieval: the message model\<close>

text \<open>
  The module \<^verbatim>\<open>gmsad/salt.py\<close> sends an AS-REQ without pre-authentication data to a
  KDC and reads the salt of a principal out of the reply; a second function derives the
  salt from the account name alone.

  Byte strings are lists of octets. Python text is a list of 8-bit characters, the range
  that the latin1 encoding of a GeneralString holds. Python integers are unbounded.
\<close>

type_synonym bytes = "8 word list"

text \<open>
  Every \<^verbatim>\<open>raise\<close> of the module and every exception of a library call is a value:
  the Python exception class with its message.
\<close>

datatype error =
    ValueError string
  | TypeError string
  | Exception string
  | OSError string
  | struct_error string
  | timeout

subsection \<open>Constants\<close>

definition AS_REQ_TAG_NUMBER :: int where "AS_REQ_TAG_NUMBER = 10"
definition AS_REP_TAG_NUMBER :: int where "AS_REP_TAG_NUMBER = 11"
definition KRB_ERROR_TAG_NUMBER :: int where "KRB_ERROR_TAG_NUMBER = 30"
definition AS_MSG_TYPE :: int where "AS_MSG_TYPE = 10"
definition NT_PRINCIPAL :: int where "NT_PRINCIPAL = 1"
definition NT_SRV_INST :: int where "NT_SRV_INST = 2"
definition KDC_ERR_PREAUTH_REQUIRED :: int where "KDC_ERR_PREAUTH_REQUIRED = 25"
definition PA_ETYPE_INFO2 :: int where "PA_ETYPE_INFO2 = 19"
definition AES128_CTS_HMAC_SHA1_96_ENC_TYPE :: int where "AES128_CTS_HMAC_SHA1_96_ENC_TYPE = 17"
definition AES256_CTS_HMAC_SHA1h96_ENC_TYPE :: int where "AES256_CTS_HMAC_SHA1h96_ENC_TYPE = 18"
definition TIME_T_ZERO :: string where "TIME_T_ZERO = ''19700101000000Z''"
definition INT32_MAX_VAL :: int where "INT32_MAX_VAL = 0x7FFFFFFF"
definition KERBEROS_PORT :: nat where "KERBEROS_PORT = 88"

subsection \<open>The ASN.1 structures\<close>

text \<open>
  One record per \<^verbatim>\<open>Sequence\<close> class, one field per entry of its \<^verbatim>\<open>_fields\<close>, in the
  declared order; an optional field is an \<open>option\<close>. A field keeps its name (with \<open>_\<close>
  for \<open>-\<close>); where two structures declare the same name, the later one carries a prefix.
  A \<^verbatim>\<open>SequenceOf\<close> is a list. \<^verbatim>\<open>KDCOptions\<close> is the set of the names of the bits that
  are set. A \<^verbatim>\<open>KerberosTime\<close> is its GeneralizedTime text.
\<close>

record EncryptedData =
  enc_etype :: int
  kvno :: "int option"
  cipher :: bytes

record HostAddress =
  addr_type :: int
  address :: bytes

record PrincipalName =
  name_type :: int
  name_string :: "string list"

record Ticket =
  tkt_vno :: int
  tkt_realm :: string
  tkt_sname :: PrincipalName
  tkt_enc_part :: EncryptedData

record KDC_REQ_BODY =
  kdc_options :: "string set"
  cname :: "PrincipalName option"
  realm :: string
  sname :: "PrincipalName option"
  from_time :: "string option"
  till :: string
  rtime :: "string option"
  nonce :: int
  etype :: "int list option"
  addresses :: "HostAddress list option"
  enc_authorization_data :: "EncryptedData option"
  additional_tickets :: "Ticket list option"

record PA_DATA =
  padata_type :: int
  padata_value :: bytes

record KRB_KDC_REQ =
  pvno :: int
  msg_type :: int
  req_padata :: "PA_DATA list option"
  req_body :: KDC_REQ_BODY

record KRB_KDC_REP =
  rep_pvno :: int
  rep_msg_type :: int
  rep_padata :: "PA_DATA list option"
  crealm :: string
  rep_cname :: PrincipalName
  ticket :: Ticket
  enc_part :: EncryptedData

record KRB_ERROR =
  err_pvno :: int
  err_msg_type :: int
  ctime :: "string option"
  cusec :: "int option"
  stime :: string
  susec :: int
  error_code :: int
  err_crealm :: "string option"
  err_cname :: "PrincipalName option"
  err_realm :: string
  err_sname :: PrincipalName
  e_text :: "string option"
  e_data :: "bytes option"

record ETYPE_INFO2_ENTRY =
  entry_etype :: int
  salt :: "string option"
  s2kparams :: "bytes option"

subsection \<open>The library\<close>

text \<open>
  The encoder and the decoders are those of the \<^verbatim>\<open>asn1crypto\<close> package, which is not part
  of the module. They are parameters of the model.

  The package decodes lazily. \<^verbatim>\<open>load\<close> reads the outer header of the bytes and nothing
  more. The elements of a \<^verbatim>\<open>SequenceOf\<close> are split when the iteration over it starts,
  and an element is built when the iteration reaches it. The fields of a \<^verbatim>\<open>Sequence\<close>
  are built and converted one by one, each when it is read. So a value that is malformed
  in a place that the function never reads raises nothing, and an exception belongs to
  the read that raises it.

  What \<^verbatim>\<open>load\<close> returns is therefore an object: a record of the outcomes of the reads
  that \<^verbatim>\<open>get_salt_from_rep\<close> can make of it, each the value read or the exception raised.
  The first read of an element stands for the building of the element as well.
\<close>

record KRB_ERROR_obj =
  error_code_native :: "error + int"
  e_data_native :: "error + bytes option"

record PA_DATA_obj =
  padata_type_native :: "error + int"
  padata_value_native :: "error + bytes"

record ETYPE_INFO2_ENTRY_obj =
  etype_native :: "error + int"
  salt_read :: "error + string option"

text \<open>
  The only read of a \<^verbatim>\<open>KRB_AS_REP\<close> is \<^verbatim>\<open>as_rep['padata'].native\<close>, which converts the
  whole list of PA-DATA at once.
\<close>

record KRB_AS_REP_obj =
  padata_native :: "error + PA_DATA list option"

text \<open>
  \<open>Any_load_tag\<close> is \<^verbatim>\<open>Any.load(b).tag\<close>. Each \<open>_load\<close> is the \<^verbatim>\<open>load\<close> of the class of
  that name; for a \<^verbatim>\<open>SequenceOf\<close> it is the \<^verbatim>\<open>load\<close> and the start of the iteration,
  and it gives the list of the elements. \<open>KRB_AS_REQ_dump\<close> is \<^verbatim>\<open>dump\<close>, and
  \<open>KRB_AS_REQ_load\<close> the full decoding of a request. A decoder returns the exception it
  raises as \<open>Inl\<close>.
\<close>

record asn1 =
  Any_load_tag :: "bytes \<Rightarrow> error + int"
  KRB_ERROR_load :: "bytes \<Rightarrow> error + KRB_ERROR_obj"
  KRB_AS_REP_load :: "bytes \<Rightarrow> error + KRB_AS_REP_obj"
  PA_DATA_SEQUENCE_OF_load :: "bytes \<Rightarrow> error + PA_DATA_obj list"
  ETYPE_INFO2_load :: "bytes \<Rightarrow> error + ETYPE_INFO2_ENTRY_obj list"
  KRB_AS_REQ_dump :: "KRB_KDC_REQ \<Rightarrow> bytes"
  KRB_AS_REQ_load :: "bytes \<Rightarrow> error + KRB_KDC_REQ"

text \<open>
  The object of a value that is well formed throughout: every read gives the part of
  the value.
\<close>

definition parsed_KRB_ERROR :: "KRB_ERROR \<Rightarrow> KRB_ERROR_obj" where
  "parsed_KRB_ERROR v = \<lparr>error_code_native = Inr (error_code v), e_data_native = Inr (e_data v)\<rparr>"

definition parsed_PA_DATA :: "PA_DATA \<Rightarrow> PA_DATA_obj" where
  "parsed_PA_DATA v =
     \<lparr>padata_type_native = Inr (padata_type v), padata_value_native = Inr (padata_value v)\<rparr>"

definition parsed_ENTRY :: "ETYPE_INFO2_ENTRY \<Rightarrow> ETYPE_INFO2_ENTRY_obj" where
  "parsed_ENTRY v = \<lparr>etype_native = Inr (entry_etype v), salt_read = Inr (salt v)\<rparr>"

definition parsed_KRB_AS_REP :: "KRB_KDC_REP \<Rightarrow> KRB_AS_REP_obj" where
  "parsed_KRB_AS_REP v = \<lparr>padata_native = Inr (rep_padata v)\<rparr>"

section \<open>Building the request\<close>

text \<open>
  \<^verbatim>\<open>random.randint\<close> draws from the generator of the process. The generator is a
  parameter: a function from the two bounds and the state of the generator to the number
  drawn and the next state. What the library documents of it is that the number lies
  between the bounds, both included.
\<close>

definition randint_contract :: "(int \<Rightarrow> int \<Rightarrow> 'g \<Rightarrow> int \<times> 'g) \<Rightarrow> bool" where
  "randint_contract randint =
     (\<forall>a b g. a \<le> b \<longrightarrow> a \<le> fst (randint a b g) \<and> fst (randint a b g) \<le> b)"

text \<open>
  The value that the variable \<^verbatim>\<open>as_req\<close> of \<^verbatim>\<open>build_as_req\<close> holds at the
  \<^verbatim>\<open>return\<close> statement, as a function of the number drawn for the nonce. Fields that the
  function never assigns are absent.
\<close>

definition as_req_of :: "int \<Rightarrow> string \<Rightarrow> string \<Rightarrow> KRB_KDC_REQ" where
  "as_req_of n username domain =
     \<lparr>pvno = 5,
      msg_type = AS_MSG_TYPE,
      req_padata = None,
      req_body =
        \<lparr>kdc_options = {},
         cname = Some \<lparr>name_type = NT_PRINCIPAL, name_string = [username]\<rparr>,
         realm = domain,
         sname = Some \<lparr>name_type = NT_SRV_INST, name_string = [''krbtgt'', domain]\<rparr>,
         from_time = None,
         till = TIME_T_ZERO,
         rtime = None,
         nonce = n,
         etype = Some [AES128_CTS_HMAC_SHA1_96_ENC_TYPE, AES256_CTS_HMAC_SHA1h96_ENC_TYPE],
         addresses = None,
         enc_authorization_data = None,
         additional_tickets = None\<rparr>\<rparr>"

definition build_as_req ::
  "asn1 \<Rightarrow> (int \<Rightarrow> int \<Rightarrow> 'g \<Rightarrow> int \<times> 'g) \<Rightarrow> string \<Rightarrow> string \<Rightarrow> 'g \<Rightarrow> bytes \<times> 'g" where
  "build_as_req lib randint username domain g =
     (case randint 0 INT32_MAX_VAL g of
        (n, g') \<Rightarrow> (KRB_AS_REQ_dump lib (as_req_of n username domain), g'))"

text \<open>
  What the library promises of its encoder and decoder, for one value: decoding the
  encoding of the value gives the value back.
\<close>

definition decodes_back :: "asn1 \<Rightarrow> KRB_KDC_REQ \<Rightarrow> bool" where
  "decodes_back lib v = (KRB_AS_REQ_load lib (KRB_AS_REQ_dump lib v) = Inr v)"

section \<open>The transport\<close>

text \<open>
  \<^verbatim>\<open>struct.pack('!i', n)\<close> is the four octets of \<open>n\<close> in two's complement, the most
  significant first, and an error outside the range of a signed 32-bit integer.
  \<^verbatim>\<open>struct.unpack('!i', b)[0]\<close> is the inverse, and an error unless \<open>b\<close> has four octets.
\<close>

definition struct_pack_i :: "int \<Rightarrow> error + bytes" where
  "struct_pack_i n =
     (if - (2 ^ 31) \<le> n \<and> n < 2 ^ 31
      then Inr [word_of_int (n div 2 ^ 24), word_of_int (n div 2 ^ 16),
                word_of_int (n div 2 ^ 8), word_of_int n]
      else Inl (struct_error ''argument out of range''))"

definition struct_unpack_i :: "bytes \<Rightarrow> error + int" where
  "struct_unpack_i b =
     (case b of
        [b3, b2, b1, b0] \<Rightarrow>
          (let u = uint b3 * 2 ^ 24 + uint b2 * 2 ^ 16 + uint b1 * 2 ^ 8 + uint b0
           in Inr (if 2 ^ 31 \<le> u then u - 2 ^ 32 else u))
      | _ \<Rightarrow> Inl (struct_error ''unpack requires a buffer of 4 bytes''))"

text \<open>
  A socket is what is still to arrive on it. On a stream socket the octets of the peer
  arrive in pieces, and \<^verbatim>\<open>recv(bufsize)\<close> returns what has arrived, at most \<open>bufsize\<close>
  octets of it: the elements of the list are what the successive calls find, and the
  empty list is a connection that the peer has closed (\<^verbatim>\<open>recv\<close> returns \<^verbatim>\<open>b''\<close>).
  On a datagram socket each element is one datagram, \<^verbatim>\<open>recv\<close> returns its first
  \<open>bufsize\<close> octets and drops the rest, and the empty list is the timeout.
  A negative \<open>bufsize\<close> is a ValueError. A stream peer that stays silent without
  closing, on which \<^verbatim>\<open>recv\<close> would wait without end, is not represented.
\<close>

datatype sock_type = SOCK_STREAM | SOCK_DGRAM

fun recv_stream :: "int \<Rightarrow> bytes list \<Rightarrow> (error + bytes) \<times> bytes list" where
  "recv_stream bufsize [] =
     (if bufsize < 0 then (Inl (ValueError ''negative buffersize in recv''), [])
      else (Inr [], []))"
| "recv_stream bufsize (piece # later) =
     (if bufsize < 0 then (Inl (ValueError ''negative buffersize in recv''), piece # later)
      else if length piece \<le> nat bufsize then (Inr piece, later)
      else (Inr (take (nat bufsize) piece), drop (nat bufsize) piece # later))"

fun recv_dgram :: "int \<Rightarrow> bytes list \<Rightarrow> (error + bytes) \<times> bytes list" where
  "recv_dgram bufsize [] =
     (if bufsize < 0 then (Inl (ValueError ''negative buffersize in recv''), [])
      else (Inl timeout, []))"
| "recv_dgram bufsize (datagram # later) =
     (if bufsize < 0 then (Inl (ValueError ''negative buffersize in recv''), datagram # later)
      else (Inr (take (nat bufsize) datagram), later))"

text \<open>
  The network: connecting a socket of a type to a host and port fails (\<open>None\<close>, an
  OSError) or reaches a peer, and a peer answers what it is sent with what then arrives
  on the socket.
\<close>

type_synonym peer = "bytes \<Rightarrow> bytes list"
type_synonym network = "sock_type \<Rightarrow> string \<Rightarrow> nat \<Rightarrow> peer option"

definition send_as_req ::
  "asn1 \<Rightarrow> (int \<Rightarrow> int \<Rightarrow> 'g \<Rightarrow> int \<times> 'g) \<Rightarrow> network \<Rightarrow>
     string \<Rightarrow> string \<Rightarrow> string \<Rightarrow> bool \<Rightarrow> 'g \<Rightarrow> (error + bytes) \<times> 'g" where
  "send_as_req lib randint net dc username domain udp g =
     (if udp then
        (case net SOCK_DGRAM dc KERBEROS_PORT of
           None \<Rightarrow> (Inl (OSError ''connect''), g)
         | Some s \<Rightarrow>
             (case build_as_req lib randint username domain g of
                (data, g') \<Rightarrow> (fst (recv_dgram 1024 (s data)), g')))
      else
        (case net SOCK_STREAM dc KERBEROS_PORT of
           None \<Rightarrow> (Inl (OSError ''connect''), g)
         | Some s \<Rightarrow>
             (case build_as_req lib randint username domain g of
                (data, g') \<Rightarrow>
                  (case struct_pack_i (int (length data)) of
                     Inl e \<Rightarrow> (Inl e, g')
                   | Inr request_length \<Rightarrow>
                       (case recv_stream 4 (s (request_length @ data)) of
                          (Inl e, arriving) \<Rightarrow> (Inl e, g')
                        | (Inr prefix, arriving) \<Rightarrow>
                            (case struct_unpack_i prefix of
                               Inl e \<Rightarrow> (Inl e, g')
                             | Inr response_length \<Rightarrow>
                                 (fst (recv_stream response_length arriving), g')))))))"

section \<open>Reading the salt out of a reply\<close>

text \<open>
  \<^verbatim>\<open>"%d" % tag\<close> and the decimal numerals inside other texts.
\<close>

fun decimal :: "nat \<Rightarrow> string" where
  "decimal n =
     (if n < 10 then [''0123456789'' ! n]
      else decimal (n div 10) @ [''0123456789'' ! (n mod 10)])"

definition format_d :: "int \<Rightarrow> string" where
  "format_d i = (if i < 0 then ''-'' @ decimal (nat (- i)) else decimal (nat i))"

text \<open>
  The KRB-ERROR branch returns \<^verbatim>\<open>str(entry['salt'].native)\<close>. The \<^verbatim>\<open>native\<close> of an
  optional field that is absent is \<^verbatim>\<open>None\<close>, and \<^verbatim>\<open>str(None)\<close> is the text \<^verbatim>\<open>None\<close>.
\<close>

definition str_of_native :: "string option \<Rightarrow> string" where
  "str_of_native v = (case v of None \<Rightarrow> ''None'' | Some s \<Rightarrow> s)"

text \<open>
  The AS-REP branch returns \<^verbatim>\<open>str(entry['salt'])\<close>, the text of the field object itself.
  For a string that is present this is its content. An absent optional field is the
  library's \<^verbatim>\<open>VOID\<close> object, whose text is the generic one of a value,
  \<^verbatim>\<open><asn1crypto.core.Void ID b''>\<close>, where \<^verbatim>\<open>ID\<close> is \<^verbatim>\<open>id(VOID)\<close>: the address of
  that object in the running process. The address is the parameter \<open>void_id\<close>.
\<close>

definition str_of_value :: "nat \<Rightarrow> string option \<Rightarrow> string" where
  "str_of_value void_id v =
     (case v of
        None \<Rightarrow> ''<asn1crypto.core.Void '' @ decimal void_id @ '' b'' @ [CHR 0x27, CHR 0x27] @ ''>''
      | Some s \<Rightarrow> s)"

text \<open>
  The two nested \<^verbatim>\<open>for\<close> loops of the KRB-ERROR branch. A loop returns \<open>Inr (Some s)\<close>
  at the \<^verbatim>\<open>return\<close> statement, \<open>Inr None\<close> when it runs to its end, and \<open>Inl e\<close> when
  a read raises \<open>e\<close>. An element is read when the loop reaches it: first its type, and
  its value or salt only when the type is the one looked for. The elements behind the
  one at which the loop returns are never read.
\<close>

fun krb_error_etype_loop :: "ETYPE_INFO2_ENTRY_obj list \<Rightarrow> error + string option" where
  "krb_error_etype_loop [] = Inr None"
| "krb_error_etype_loop (pa_etype_info2_value # rest) =
     (case etype_native pa_etype_info2_value of
        Inl e \<Rightarrow> Inl e
      | Inr t \<Rightarrow>
          if t = AES256_CTS_HMAC_SHA1h96_ENC_TYPE then
            (case salt_read pa_etype_info2_value of
               Inl e \<Rightarrow> Inl e
             | Inr s \<Rightarrow> Inr (Some (str_of_native s)))
          else krb_error_etype_loop rest)"

fun krb_error_padata_loop :: "asn1 \<Rightarrow> PA_DATA_obj list \<Rightarrow> error + string option" where
  "krb_error_padata_loop lib [] = Inr None"
| "krb_error_padata_loop lib (padata # rest) =
     (case padata_type_native padata of
        Inl e \<Rightarrow> Inl e
      | Inr t \<Rightarrow>
          if t = PA_ETYPE_INFO2 then
            (case padata_value_native padata of
               Inl e \<Rightarrow> Inl e
             | Inr v \<Rightarrow>
                 (case ETYPE_INFO2_load lib v of
                    Inl e \<Rightarrow> Inl e
                  | Inr entries \<Rightarrow>
                      (case krb_error_etype_loop entries of
                         Inl e \<Rightarrow> Inl e
                       | Inr (Some s) \<Rightarrow> Inr (Some s)
                       | Inr None \<Rightarrow> krb_error_padata_loop lib rest)))
          else krb_error_padata_loop lib rest)"

text \<open>
  The two nested loops of the AS-REP branch. The outer one runs over the list of PA-DATA
  that was converted at once; the inner one reads its elements as it reaches them.
\<close>

fun as_rep_etype_loop :: "nat \<Rightarrow> ETYPE_INFO2_ENTRY_obj list \<Rightarrow> error + string option" where
  "as_rep_etype_loop void_id [] = Inr None"
| "as_rep_etype_loop void_id (pa_etype_info2_value # rest) =
     (case etype_native pa_etype_info2_value of
        Inl e \<Rightarrow> Inl e
      | Inr t \<Rightarrow>
          if t = AES256_CTS_HMAC_SHA1h96_ENC_TYPE \<or> t = AES128_CTS_HMAC_SHA1_96_ENC_TYPE then
            (case salt_read pa_etype_info2_value of
               Inl e \<Rightarrow> Inl e
             | Inr s \<Rightarrow> Inr (Some (str_of_value void_id s)))
          else as_rep_etype_loop void_id rest)"

fun as_rep_padata_loop :: "asn1 \<Rightarrow> nat \<Rightarrow> PA_DATA list \<Rightarrow> error + string option" where
  "as_rep_padata_loop lib void_id [] = Inr None"
| "as_rep_padata_loop lib void_id (padata # rest) =
     (if padata_type padata = PA_ETYPE_INFO2 then
        (case ETYPE_INFO2_load lib (padata_value padata) of
           Inl e \<Rightarrow> Inl e
         | Inr entries \<Rightarrow>
             (case as_rep_etype_loop void_id entries of
                Inl e \<Rightarrow> Inl e
              | Inr (Some s) \<Rightarrow> Inr (Some s)
              | Inr None \<Rightarrow> as_rep_padata_loop lib void_id rest))
      else as_rep_padata_loop lib void_id rest)"

text \<open>
  The exception of the last line of \<^verbatim>\<open>get_salt_from_rep\<close>, reached whenever no
  \<^verbatim>\<open>return\<close> was.
\<close>

definition could_not_retrieve :: "int \<Rightarrow> error" where
  "could_not_retrieve tag =
     Exception (''Could not retrieve salt from AS_REP (tag number '' @ format_d tag @ '')'')"

text \<open>
  The two TypeErrors of absent fields: \<^verbatim>\<open>PA_DATA_SEQUENCE_OF.load(None)\<close> for an absent
  \<^verbatim>\<open>e-data\<close>, and the \<^verbatim>\<open>for\<close> statement over \<^verbatim>\<open>None\<close> for an absent \<^verbatim>\<open>padata\<close>.
\<close>

definition load_of_None :: error where
  "load_of_None = TypeError ''encoded_data must be a byte string, not NoneType''"

definition iteration_over_None :: error where
  "iteration_over_None =
     TypeError ([CHR 0x27] @ ''NoneType'' @ [CHR 0x27] @ '' object is not iterable'')"

text \<open>
  \<^verbatim>\<open>get_salt_from_rep\<close>. The reads are in the order of the source: the outer tag; in the
  KRB-ERROR branch the error code, and only for the code 25 the \<^verbatim>\<open>e-data\<close>; in the AS-REP
  branch the padata.
\<close>

definition get_salt_from_rep :: "asn1 \<Rightarrow> nat \<Rightarrow> bytes \<Rightarrow> error + string" where
  "get_salt_from_rep lib void_id kdc_rep =
     (case Any_load_tag lib kdc_rep of
        Inl e \<Rightarrow> Inl e
      | Inr tag \<Rightarrow>
          if tag = KRB_ERROR_TAG_NUMBER then
            (case KRB_ERROR_load lib kdc_rep of
               Inl e \<Rightarrow> Inl e
             | Inr err \<Rightarrow>
                 (case error_code_native err of
                    Inl e \<Rightarrow> Inl e
                  | Inr code \<Rightarrow>
                      if code = KDC_ERR_PREAUTH_REQUIRED then
                        (case e_data_native err of
                           Inl e \<Rightarrow> Inl e
                         | Inr None \<Rightarrow> Inl load_of_None
                         | Inr (Some d) \<Rightarrow>
                             (case PA_DATA_SEQUENCE_OF_load lib d of
                                Inl e \<Rightarrow> Inl e
                              | Inr padatas \<Rightarrow>
                                  (case krb_error_padata_loop lib padatas of
                                     Inl e \<Rightarrow> Inl e
                                   | Inr (Some s) \<Rightarrow> Inr s
                                   | Inr None \<Rightarrow> Inl (could_not_retrieve tag))))
                      else Inl (could_not_retrieve tag)))
          else if tag = AS_REP_TAG_NUMBER then
            (case KRB_AS_REP_load lib kdc_rep of
               Inl e \<Rightarrow> Inl e
             | Inr as_rep \<Rightarrow>
                 (case padata_native as_rep of
                    Inl e \<Rightarrow> Inl e
                  | Inr None \<Rightarrow> Inl iteration_over_None
                  | Inr (Some padatas) \<Rightarrow>
                      (case as_rep_padata_loop lib void_id padatas of
                         Inl e \<Rightarrow> Inl e
                       | Inr (Some s) \<Rightarrow> Inr s
                       | Inr None \<Rightarrow> Inl (could_not_retrieve tag))))
          else Inl (could_not_retrieve tag))"

definition get_salt_from_preauth ::
  "asn1 \<Rightarrow> (int \<Rightarrow> int \<Rightarrow> 'g \<Rightarrow> int \<times> 'g) \<Rightarrow> network \<Rightarrow> nat \<Rightarrow>
     string \<Rightarrow> string \<Rightarrow> string \<Rightarrow> 'g \<Rightarrow> (error + string) \<times> 'g" where
  "get_salt_from_preauth lib randint net void_id dc username domain g =
     (case send_as_req lib randint net dc username domain False g of
        (Inl e, g') \<Rightarrow> (Inl e, g')
      | (Inr kdc_rep, g') \<Rightarrow> (get_salt_from_rep lib void_id kdc_rep, g'))"

section \<open>The salt by naming convention\<close>

text \<open>
  \<^verbatim>\<open>s.rstrip(chars)\<close> removes from the end of \<open>s\<close> every character that is in \<open>chars\<close>,
  until one is not.
\<close>

definition rstrip :: "string \<Rightarrow> string \<Rightarrow> string" where
  "rstrip chars s = rev (dropWhile (\<lambda>c. c \<in> set chars) (rev s))"

text \<open>
  \<^verbatim>\<open>domain.upper()\<close> and \<^verbatim>\<open>domain.lower()\<close> are the methods of Python's text, which
  follow the Unicode case mappings. They are parameters of the model: nothing is
  assumed of them but what is stated where it is used.
\<close>

definition get_salt_from_heuristic ::
  "(string \<Rightarrow> string) \<Rightarrow> (string \<Rightarrow> string) \<Rightarrow> string \<Rightarrow> string \<Rightarrow> string" where
  "get_salt_from_heuristic upper lower sam_account_name domain =
     (let sAMAccountName = rstrip ''$'' sam_account_name
      in upper domain @ ''host'' @ sAMAccountName @ ''.'' @ lower domain)"

text \<open>
  What the two methods do on ASCII text, where a character is below 128: they map the
  26 letters and keep every other character.
\<close>

definition ascii_upper_char :: "char \<Rightarrow> char" where
  "ascii_upper_char c =
     (case map_of (zip ''abcdefghijklmnopqrstuvwxyz'' ''ABCDEFGHIJKLMNOPQRSTUVWXYZ'') c of
        Some u \<Rightarrow> u | None \<Rightarrow> c)"

definition ascii_lower_char :: "char \<Rightarrow> char" where
  "ascii_lower_char c =
     (case map_of (zip ''ABCDEFGHIJKLMNOPQRSTUVWXYZ'' ''abcdefghijklmnopqrstuvwxyz'') c of
        Some l \<Rightarrow> l | None \<Rightarrow> c)"

definition ascii_upper :: "string \<Rightarrow> string" where
  "ascii_upper s = map ascii_upper_char s"

definition ascii_lower :: "string \<Rightarrow> string" where
  "ascii_lower s = map ascii_lower_char s"

definition is_ascii :: "string \<Rightarrow> bool" where
  "is_ascii s = list_all (\<lambda>c. (of_char c :: nat) < 128) s"

definition ascii_case_contract :: "(string \<Rightarrow> string) \<Rightarrow> (string \<Rightarrow> string) \<Rightarrow> bool" where
  "ascii_case_contract upper lower =
     (\<forall>s. is_ascii s \<longrightarrow> upper s = ascii_upper s \<and> lower s = ascii_lower s)"

section \<open>The behaviour the specification words describe\<close>

text \<open>
  The specification describes the KRB-ERROR branch as looking at one PA-DATA entry only:
  the first whose type is ETYPE-INFO2; in its list the first entry for AES256; failure
  when there is none, and failure when that entry has no salt. This is that description,
  written down to be compared with \<open>get_salt_from_rep\<close>.
\<close>

definition first_etype_info2_only :: "asn1 \<Rightarrow> PA_DATA_obj list \<Rightarrow> error + string" where
  "first_etype_info2_only lib padatas =
     (case find (\<lambda>p. padata_type_native p = Inr PA_ETYPE_INFO2) padatas of
        None \<Rightarrow> Inl (could_not_retrieve KRB_ERROR_TAG_NUMBER)
      | Some p \<Rightarrow>
          (case padata_value_native p of
             Inl e \<Rightarrow> Inl e
           | Inr v \<Rightarrow>
               (case ETYPE_INFO2_load lib v of
                  Inl e \<Rightarrow> Inl e
                | Inr entries \<Rightarrow>
                    (case find (\<lambda>x. etype_native x = Inr AES256_CTS_HMAC_SHA1h96_ENC_TYPE)
                            entries of
                       None \<Rightarrow> Inl (could_not_retrieve KRB_ERROR_TAG_NUMBER)
                     | Some x \<Rightarrow>
                         (case salt_read x of
                            Inr (Some s) \<Rightarrow> Inr s
                          | _ \<Rightarrow> Inl (could_not_retrieve KRB_ERROR_TAG_NUMBER))))))"

text \<open>
  The specification describes the heuristic as removing a single trailing \<open>$\<close>.
\<close>

definition strip_single_dollar :: "string \<Rightarrow> string" where
  "strip_single_dollar s = (if s \<noteq> [] \<and> last s = CHR ''$'' then butlast s else s)"

section \<open>Example replies\<close>

text \<open>
  A small library instance for the examples. A reply is two octets: the identifier octet
  of the outer tag (\<open>0x7E\<close> is APPLICATION 30, \<open>0x6B\<close> is APPLICATION 11, \<open>0x6A\<close> is
  APPLICATION 10) and the number of the example. \<open>Any_load_tag\<close> reads the tag number off
  the identifier octet; the other decoders are tables, and what is not in a table does
  not decode. Most examples are well formed throughout; the others have one read that
  raises.
\<close>

definition example_entry :: "int \<Rightarrow> string option \<Rightarrow> ETYPE_INFO2_ENTRY" where
  "example_entry t s = \<lparr>entry_etype = t, salt = s, s2kparams = None\<rparr>"

definition example_padata :: "bytes \<Rightarrow> PA_DATA" where
  "example_padata v = \<lparr>padata_type = 19, padata_value = v\<rparr>"

definition example_krbtgt :: PrincipalName where
  "example_krbtgt = \<lparr>name_type = 2, name_string = [''krbtgt'', ''EXAMPLE.COM'']\<rparr>"

definition example_krb_error :: "int \<Rightarrow> bytes option \<Rightarrow> KRB_ERROR" where
  "example_krb_error code d =
     \<lparr>err_pvno = 5, err_msg_type = 30, ctime = None, cusec = None,
      stime = ''20240101000000Z'', susec = 0, error_code = code, err_crealm = None,
      err_cname = None, err_realm = ''EXAMPLE.COM'', err_sname = example_krbtgt,
      e_text = None, e_data = d\<rparr>"

definition example_as_rep :: "PA_DATA list option \<Rightarrow> KRB_KDC_REP" where
  "example_as_rep pas =
     \<lparr>rep_pvno = 5, rep_msg_type = 11, rep_padata = pas, crealm = ''EXAMPLE.COM'',
      rep_cname = \<lparr>name_type = 1, name_string = [''svc$'']\<rparr>,
      ticket = \<lparr>tkt_vno = 5, tkt_realm = ''EXAMPLE.COM'', tkt_sname = example_krbtgt,
                tkt_enc_part = \<lparr>enc_etype = 18, kvno = Some 2, cipher = [0]\<rparr>\<rparr>,
      enc_part = \<lparr>enc_etype = 18, kvno = Some 2, cipher = [0]\<rparr>\<rparr>"

definition unreadable :: "string \<Rightarrow> error" where
  "unreadable what = ValueError (''Error parsing '' @ what)"

definition from_table :: "string \<Rightarrow> (bytes \<times> 'a) list \<Rightarrow> bytes \<Rightarrow> error + 'a" where
  "from_table what table b =
     (case map_of table b of
        None \<Rightarrow> Inl (unreadable what)
      | Some v \<Rightarrow> Inr v)"

definition example_lib :: asn1 where
  "example_lib =
     \<lparr>Any_load_tag =
        (\<lambda>b. case b of
               [] \<Rightarrow> Inl (ValueError ''Insufficient data'')
             | identifier # _ \<Rightarrow> Inr (uint identifier mod 32)),
      KRB_ERROR_load = from_table ''KRB_ERROR''
        [([0x7E, 1], parsed_KRB_ERROR (example_krb_error 25 (Some [0xA1]))),
         ([0x7E, 2], parsed_KRB_ERROR (example_krb_error 25 (Some [0xA2]))),
         ([0x7E, 3], parsed_KRB_ERROR (example_krb_error 6 None)),
         ([0x7E, 4], parsed_KRB_ERROR (example_krb_error 25 (Some [0xA4]))),
         ([0x7E, 5], parsed_KRB_ERROR (example_krb_error 25 (Some [0xA5]))),
         ([0x7E, 6], parsed_KRB_ERROR (example_krb_error 25 (Some [0xA6]))),
         ([0x7E, 7], \<lparr>error_code_native = Inl (unreadable ''error-code''),
                      e_data_native = Inr None\<rparr>),
         ([0x7E, 8], \<lparr>error_code_native = Inr 25,
                      e_data_native = Inl (unreadable ''e-data'')\<rparr>),
         ([0x7E, 10], parsed_KRB_ERROR (example_krb_error 25 None)),
         ([0x7E, 11], parsed_KRB_ERROR (example_krb_error 25 (Some [0xAB]))),
         ([0x7E, 12], parsed_KRB_ERROR (example_krb_error 25 (Some [0xAC]))),
         ([0x7E, 13], parsed_KRB_ERROR (example_krb_error 25 (Some [0xAD]))),
         ([0x7E, 14], parsed_KRB_ERROR (example_krb_error 25 (Some [0xAE]))),
         ([0x7E, 15], parsed_KRB_ERROR (example_krb_error 25 (Some [0xAF])))],
      KRB_AS_REP_load = from_table ''KRB_AS_REP''
        [([0x6B, 1], parsed_KRB_AS_REP (example_as_rep (Some [example_padata [5]]))),
         ([0x6B, 2], parsed_KRB_AS_REP (example_as_rep (Some [example_padata [6]]))),
         ([0x6B, 3], parsed_KRB_AS_REP (example_as_rep (Some [example_padata [0xFF]]))),
         ([0x6B, 4], \<lparr>padata_native = Inl (unreadable ''padata'')\<rparr>),
         ([0x6B, 5], parsed_KRB_AS_REP (example_as_rep None)),
         ([0x6B, 6], parsed_KRB_AS_REP (example_as_rep (Some [example_padata [7]]))),
         ([0x6B, 7], parsed_KRB_AS_REP (example_as_rep (Some [example_padata [10]])))],
      PA_DATA_SEQUENCE_OF_load = from_table ''PA_DATA_SEQUENCE_OF''
        [([0xA1], map parsed_PA_DATA [example_padata [1], example_padata [2]]),
         ([0xA2], map parsed_PA_DATA [example_padata [3]]),
         ([0xA4], map parsed_PA_DATA [example_padata [4]]),
         ([0xA6], map parsed_PA_DATA [example_padata [0xFF]]),
         ([0xAB], [\<lparr>padata_type_native = Inl (unreadable ''padata-type''),
                    padata_value_native = Inr []\<rparr>]),
         ([0xAC], [\<lparr>padata_type_native = Inr 19,
                    padata_value_native = Inl (unreadable ''padata-value'')\<rparr>]),
         ([0xAD], map parsed_PA_DATA [example_padata [7]]),
         ([0xAE], map parsed_PA_DATA [example_padata [8]]),
         ([0xAF], map parsed_PA_DATA [example_padata [9]])],
      ETYPE_INFO2_load = from_table ''ETYPE_INFO2''
        [([1], map parsed_ENTRY [example_entry 17 (Some ''A'')]),
         ([2], map parsed_ENTRY [example_entry 18 (Some ''B'')]),
         ([3], map parsed_ENTRY [example_entry 18 None]),
         ([4], map parsed_ENTRY [example_entry 18 (Some ''REALM.COMhostSVC$'')]),
         ([5], map parsed_ENTRY [example_entry 17 (Some ''A''), example_entry 18 (Some ''B'')]),
         ([6], map parsed_ENTRY [example_entry 17 None]),
         ([7], [\<lparr>etype_native = Inl (unreadable ''etype''), salt_read = Inr None\<rparr>]),
         ([8], [\<lparr>etype_native = Inr 18, salt_read = Inl (unreadable ''salt'')\<rparr>]),
         ([9], [parsed_ENTRY (example_entry 18 (Some ''B'')),
                \<lparr>etype_native = Inl (unreadable ''etype''),
                 salt_read = Inl (unreadable ''salt'')\<rparr>]),
         ([10], [\<lparr>etype_native = Inr 17, salt_read = Inl (unreadable ''salt'')\<rparr>])],
      KRB_AS_REQ_dump = (\<lambda>v. [0x6A, word_of_int (nonce (req_body v))]),
      KRB_AS_REQ_load =
        (\<lambda>b. case b of
               [identifier, n] \<Rightarrow> Inr (as_req_of (uint n) ''svc$'' ''EXAMPLE.COM'')
             | _ \<Rightarrow> Inl (ValueError ''Error parsing KRB_AS_REQ''))\<rparr>"

text \<open>
  A generator that honours the contract of \<^verbatim>\<open>randint\<close>: its state is a counter.
\<close>

definition example_randint :: "int \<Rightarrow> int \<Rightarrow> int \<Rightarrow> int \<times> int" where
  "example_randint a b g = (a + g mod (b - a + 1), g + 1)"

text \<open>
  Two peers that echo: each answers with the octets it was sent, which are a length
  prefix and a body. From the first the echo arrives at once; from the second it arrives
  in two pieces, the first of five octets.
\<close>

definition example_net :: network where
  "example_net ty host port =
     (if ty = SOCK_STREAM \<and> port = 88 \<and> host = ''dc1.example.com''
      then Some (\<lambda>sent. [sent])
      else if ty = SOCK_STREAM \<and> port = 88 \<and> host = ''dc2.example.com''
      then Some (\<lambda>sent. [take 5 sent, drop 5 sent])
      else None)"

section \<open>Properties of the heuristic\<close>

lemma all_same_replicate:
  "(\<And>x. x \<in> set xs \<Longrightarrow> x = c) \<Longrightarrow> xs = replicate (length xs) c"
  by (induction xs) auto

lemma rstrip_decompose:
  "\<exists>k. s = rstrip [c] s @ replicate k c"
proof -
  have "rev s = takeWhile (\<lambda>x. x = c) (rev s) @ dropWhile (\<lambda>x. x = c) (rev s)"
    by simp
  then have "s = rev (dropWhile (\<lambda>x. x = c) (rev s)) @ rev (takeWhile (\<lambda>x. x = c) (rev s))"
    by (metis rev_append rev_rev_ident)
  moreover have "takeWhile (\<lambda>x. x = c) (rev s) = replicate (length (takeWhile (\<lambda>x. x = c) (rev s))) c"
    by (rule all_same_replicate) (auto dest: set_takeWhileD)
  ultimately have "s = rstrip [c] s @ replicate (length (takeWhile (\<lambda>x. x = c) (rev s))) c"
    by (simp add: rstrip_def) (metis rev_replicate)
  then show ?thesis ..
qed

lemma rstrip_last:
  "\<not> (rstrip [c] s \<noteq> [] \<and> last (rstrip [c] s) = c)"
proof
  assume a: "rstrip [c] s \<noteq> [] \<and> last (rstrip [c] s) = c"
  let ?d = "dropWhile (\<lambda>x. x = c) (rev s)"
  from a have ne: "?d \<noteq> []" by (simp add: rstrip_def)
  then have "hd ?d \<noteq> c" using hd_dropWhile [of "\<lambda>x. x = c" "rev s"] by simp
  moreover from a ne have "hd ?d = c" by (simp add: rstrip_def last_rev)
  ultimately show False by simp
qed

lemmas ascii_simps =
  ascii_upper_def ascii_lower_def ascii_upper_char_def ascii_lower_char_def

lemma ascii_case_contract_ascii: "ascii_case_contract ascii_upper ascii_lower"
  by (simp add: ascii_case_contract_def)

text \<open>
  C7, as amended. \<open>get_salt_from_heuristic\<close> removes every trailing \<open>$\<close> of the account
  name, not one: the account name is the stem that is kept followed by some number of
  \<open>$\<close>, and the stem does not end in \<open>$\<close>. The result is the realm in upper case, the
  text \<open>host\<close>, the stem, a dot and the realm in lower case, by the case mappings of
  Python, whatever they are on the realm. For a realm of ASCII characters, on which
  the mappings are known, the result is given character by character; for \<open>SVC$\<close> and
  \<open>example.com\<close> it is \<open>EXAMPLE.COMhostSVC.example.com\<close>, and so it is for the realm
  \<open>Example.COM\<close>. The function has no failure.
\<close>

theorem get_salt_from_heuristic_strips_all:
  "(\<exists>k. account_name = rstrip ''$'' account_name @ replicate k (CHR ''$''))
   \<and> \<not> (rstrip ''$'' account_name \<noteq> [] \<and> last (rstrip ''$'' account_name) = CHR ''$'')
   \<and> get_salt_from_heuristic upper lower account_name domain =
       upper domain @ ''host'' @ rstrip ''$'' account_name @ ''.'' @ lower domain
   \<and> (ascii_case_contract upper lower \<and> is_ascii domain \<longrightarrow>
        get_salt_from_heuristic upper lower account_name domain =
          ascii_upper domain @ ''host'' @ rstrip ''$'' account_name @ ''.'' @ ascii_lower domain)
   \<and> (ascii_case_contract upper lower \<longrightarrow>
        get_salt_from_heuristic upper lower ''SVC$'' ''example.com''
          = ''EXAMPLE.COMhostSVC.example.com''
        \<and> get_salt_from_heuristic upper lower ''SVC$'' ''Example.COM''
          = ''EXAMPLE.COMhostSVC.example.com'')"
proof -
  have general: "get_salt_from_heuristic upper lower a d =
       upper d @ ''host'' @ rstrip ''$'' a @ ''.'' @ lower d" for a d
    by (simp add: get_salt_from_heuristic_def)
  have ascii: "get_salt_from_heuristic upper lower a d =
       ascii_upper d @ ''host'' @ rstrip ''$'' a @ ''.'' @ ascii_lower d"
    if "ascii_case_contract upper lower" "is_ascii d" for a d
    using that by (simp add: general ascii_case_contract_def)
  have a1: "is_ascii ''example.com''" and a2: "is_ascii ''Example.COM''"
    by (simp_all add: is_ascii_def)
  have e1: "ascii_upper ''example.com'' @ ''host'' @ rstrip ''$'' ''SVC$'' @ ''.''
              @ ascii_lower ''example.com'' = ''EXAMPLE.COMhostSVC.example.com''"
    and e2: "ascii_upper ''Example.COM'' @ ''host'' @ rstrip ''$'' ''SVC$'' @ ''.''
              @ ascii_lower ''Example.COM'' = ''EXAMPLE.COMhostSVC.example.com''"
    by (simp_all add: ascii_simps rstrip_def)
  have examples: "get_salt_from_heuristic upper lower ''SVC$'' ''example.com''
          = ''EXAMPLE.COMhostSVC.example.com''
        \<and> get_salt_from_heuristic upper lower ''SVC$'' ''Example.COM''
          = ''EXAMPLE.COMhostSVC.example.com''"
    if c: "ascii_case_contract upper lower"
    using ascii [OF c a1, of "''SVC$''"] ascii [OF c a2, of "''SVC$''"] e1 e2 by simp
  show ?thesis
    using rstrip_decompose [of account_name "CHR ''$''"] rstrip_last [of "CHR ''$''" account_name]
      general [of account_name domain] ascii [of domain account_name] examples
    by blast
qed

theorem get_salt_from_heuristic_strips_all_witness:
  "ascii_case_contract ascii_upper ascii_lower
   \<and> is_ascii ''Example.COM''
   \<and> rstrip ''$'' ''SVC$$'' = ''SVC''
   \<and> get_salt_from_heuristic ascii_upper ascii_lower ''SVC$$'' ''Example.COM''
       = ''EXAMPLE.COMhostSVC.example.com''
   \<and> get_salt_from_heuristic ascii_upper ascii_lower ''SVC$'' ''example.com''
       = ''EXAMPLE.COMhostSVC.example.com''"
proof -
  have a: "is_ascii ''Example.COM''" by (simp add: is_ascii_def)
  have r: "rstrip ''$'' ''SVC$$'' = ''SVC''" by (simp add: rstrip_def)
  note inst = get_salt_from_heuristic_strips_all
    [of "''SVC$$''" ascii_upper ascii_lower "''Example.COM''"]
  from inst ascii_case_contract_ascii a
  have "get_salt_from_heuristic ascii_upper ascii_lower ''SVC$$'' ''Example.COM''
      = ascii_upper ''Example.COM'' @ ''host'' @ rstrip ''$'' ''SVC$$'' @ ''.''
          @ ascii_lower ''Example.COM''"
    by blast
  then have 1: "get_salt_from_heuristic ascii_upper ascii_lower ''SVC$$'' ''Example.COM''
      = ''EXAMPLE.COMhostSVC.example.com''"
    by (simp add: r ascii_simps)
  from inst ascii_case_contract_ascii
  have 2: "get_salt_from_heuristic ascii_upper ascii_lower ''SVC$'' ''example.com''
      = ''EXAMPLE.COMhostSVC.example.com''"
    by blast
  from ascii_case_contract_ascii a r 1 2 show ?thesis by simp
qed

text \<open>
  C7, as stated, fails for an account name that ends in two \<open>$\<close>: the claim keeps the
  first of them, the function removes both. The realm is of ASCII characters, and the
  case mappings are those of ASCII text.
\<close>

theorem get_salt_from_heuristic_single_dollar_counterexample:
  "get_salt_from_heuristic ascii_upper ascii_lower ''SVC$$'' ''example.com''
     = ''EXAMPLE.COMhostSVC.example.com''
   \<and> ascii_upper ''example.com'' @ ''host'' @ strip_single_dollar ''SVC$$'' @ ''.''
       @ ascii_lower ''example.com'' = ''EXAMPLE.COMhostSVC$.example.com''
   \<and> get_salt_from_heuristic ascii_upper ascii_lower ''SVC$$'' ''example.com''
       \<noteq> ascii_upper ''example.com'' @ ''host'' @ strip_single_dollar ''SVC$$'' @ ''.''
           @ ascii_lower ''example.com''"
  by (simp add: get_salt_from_heuristic_def rstrip_def ascii_simps strip_single_dollar_def)

section \<open>Properties of the request\<close>

lemma build_as_req_bytes:
  "fst (build_as_req lib randint p r g)
     = KRB_AS_REQ_dump lib (as_req_of (fst (randint 0 INT32_MAX_VAL g)) p r)"
  by (simp add: build_as_req_def split: prod.splits)

lemma example_randint_contract: "randint_contract example_randint"
proof -
  have "a \<le> a + g mod (b - a + 1) \<and> a + g mod (b - a + 1) \<le> b" if "a \<le> b" for a b g :: int
  proof -
    from that have pos: "0 < b - a + 1" by simp
    have "0 \<le> g mod (b - a + 1)" using pos by (rule pos_mod_sign)
    moreover have "g mod (b - a + 1) < b - a + 1" using pos by (rule pos_mod_bound)
    ultimately show ?thesis by simp
  qed
  then show ?thesis by (simp add: randint_contract_def example_randint_def)
qed

lemma example_decodes_back:
  "n = 7 \<or> n = 9 \<Longrightarrow> decodes_back example_lib (as_req_of n ''svc$'' ''EXAMPLE.COM'')"
  by (auto simp: decodes_back_def example_lib_def as_req_of_def)

lemma example_randint_draws:
  "fst (example_randint 0 INT32_MAX_VAL 7) = 7" "fst (example_randint 0 INT32_MAX_VAL 9) = 9"
  by (simp_all add: example_randint_def INT32_MAX_VAL_def)

text \<open>
  C6. For every principal name \<open>p\<close>, realm \<open>r\<close> and state \<open>g\<close> of the generator: when
  \<^verbatim>\<open>randint\<close> keeps to its bounds and the library decodes back the request that is
  built, decoding the bytes of \<open>build_as_req\<close> gives an AS-REQ with version 5, message
  type 10, no padata, no KDC option set, the client name \<open>[p]\<close>, the server name
  \<open>[krbtgt, r]\<close>, the realm \<open>r\<close>, the time \<open>19700101000000Z\<close> as \<open>till\<close>, the encryption
  types 17 (AES128) and 18 (AES256) in this order, and a nonce from 0 to \<open>0x7FFFFFFF\<close>.
\<close>

theorem build_as_req_decodes:
  assumes contract: "randint_contract randint"
    and rt: "decodes_back lib (as_req_of (fst (randint 0 INT32_MAX_VAL g)) p r)"
  shows "\<exists>v. KRB_AS_REQ_load lib (fst (build_as_req lib randint p r g)) = Inr v
      \<and> pvno v = 5 \<and> msg_type v = 10 \<and> req_padata v = None
      \<and> kdc_options (req_body v) = {}
      \<and> map_option name_string (cname (req_body v)) = Some [p]
      \<and> map_option name_string (sname (req_body v)) = Some [''krbtgt'', r]
      \<and> realm (req_body v) = r
      \<and> till (req_body v) = ''19700101000000Z''
      \<and> etype (req_body v) = Some [17, 18]
      \<and> 0 \<le> nonce (req_body v) \<and> nonce (req_body v) \<le> 0x7FFFFFFF"
proof -
  let ?n = "fst (randint 0 INT32_MAX_VAL g)"
  have "(0::int) \<le> INT32_MAX_VAL" by (simp add: INT32_MAX_VAL_def)
  with contract have "0 \<le> ?n \<and> ?n \<le> INT32_MAX_VAL"
    unfolding randint_contract_def by blast
  then have range: "0 \<le> ?n \<and> ?n \<le> 0x7FFFFFFF" by (simp add: INT32_MAX_VAL_def)
  from rt have "KRB_AS_REQ_load lib (fst (build_as_req lib randint p r g)) = Inr (as_req_of ?n p r)"
    by (simp add: build_as_req_bytes decodes_back_def)
  with range show ?thesis
    by (simp add: as_req_of_def AS_MSG_TYPE_def TIME_T_ZERO_def
        AES128_CTS_HMAC_SHA1_96_ENC_TYPE_def AES256_CTS_HMAC_SHA1h96_ENC_TYPE_def)
qed

theorem build_as_req_decodes_witness:
  "randint_contract example_randint
   \<and> decodes_back example_lib
       (as_req_of (fst (example_randint 0 INT32_MAX_VAL 7)) ''svc$'' ''EXAMPLE.COM'')
   \<and> (\<exists>v. KRB_AS_REQ_load example_lib
             (fst (build_as_req example_lib example_randint ''svc$'' ''EXAMPLE.COM'' 7)) = Inr v
      \<and> pvno v = 5 \<and> msg_type v = 10 \<and> req_padata v = None
      \<and> kdc_options (req_body v) = {}
      \<and> map_option name_string (cname (req_body v)) = Some [''svc$'']
      \<and> map_option name_string (sname (req_body v)) = Some [''krbtgt'', ''EXAMPLE.COM'']
      \<and> realm (req_body v) = ''EXAMPLE.COM''
      \<and> till (req_body v) = ''19700101000000Z''
      \<and> etype (req_body v) = Some [17, 18]
      \<and> 0 \<le> nonce (req_body v) \<and> nonce (req_body v) \<le> 0x7FFFFFFF)"
proof -
  have rt: "decodes_back example_lib
      (as_req_of (fst (example_randint 0 INT32_MAX_VAL 7)) ''svc$'' ''EXAMPLE.COM'')"
    unfolding example_randint_draws by (rule example_decodes_back) simp
  show ?thesis
    using example_randint_contract rt build_as_req_decodes [OF example_randint_contract rt]
    by blast
qed

text \<open>
  C9. For every principal name and realm, two calls of \<open>build_as_req\<close>, whatever the
  generator and its state at each, give bytes that decode (when the library decodes back
  the two requests that are built) to two AS-REQ values that are equal once their nonces
  are set to the same number: the generator reaches the nonce and nothing else.
\<close>

theorem build_as_req_differs_in_nonce_only:
  assumes rt1: "decodes_back lib (as_req_of (fst (randint1 0 INT32_MAX_VAL g1)) p r)"
    and rt2: "decodes_back lib (as_req_of (fst (randint2 0 INT32_MAX_VAL g2)) p r)"
  shows "\<exists>v1 v2. KRB_AS_REQ_load lib (fst (build_as_req lib randint1 p r g1)) = Inr v1
      \<and> KRB_AS_REQ_load lib (fst (build_as_req lib randint2 p r g2)) = Inr v2
      \<and> v1\<lparr>req_body := (req_body v1)\<lparr>nonce := n\<rparr>\<rparr>
          = v2\<lparr>req_body := (req_body v2)\<lparr>nonce := n\<rparr>\<rparr>"
proof -
  from rt1 have "KRB_AS_REQ_load lib (fst (build_as_req lib randint1 p r g1))
      = Inr (as_req_of (fst (randint1 0 INT32_MAX_VAL g1)) p r)"
    by (simp add: build_as_req_bytes decodes_back_def)
  moreover from rt2 have "KRB_AS_REQ_load lib (fst (build_as_req lib randint2 p r g2))
      = Inr (as_req_of (fst (randint2 0 INT32_MAX_VAL g2)) p r)"
    by (simp add: build_as_req_bytes decodes_back_def)
  ultimately show ?thesis by (simp add: as_req_of_def)
qed

theorem build_as_req_differs_in_nonce_only_witness:
  "decodes_back example_lib
       (as_req_of (fst (example_randint 0 INT32_MAX_VAL 7)) ''svc$'' ''EXAMPLE.COM'')
   \<and> decodes_back example_lib
       (as_req_of (fst (example_randint 0 INT32_MAX_VAL 9)) ''svc$'' ''EXAMPLE.COM'')
   \<and> fst (build_as_req example_lib example_randint ''svc$'' ''EXAMPLE.COM'' 7)
       \<noteq> fst (build_as_req example_lib example_randint ''svc$'' ''EXAMPLE.COM'' 9)
   \<and> (\<exists>v1 v2.
        KRB_AS_REQ_load example_lib
          (fst (build_as_req example_lib example_randint ''svc$'' ''EXAMPLE.COM'' 7)) = Inr v1
      \<and> KRB_AS_REQ_load example_lib
          (fst (build_as_req example_lib example_randint ''svc$'' ''EXAMPLE.COM'' 9)) = Inr v2
      \<and> v1\<lparr>req_body := (req_body v1)\<lparr>nonce := 0\<rparr>\<rparr>
          = v2\<lparr>req_body := (req_body v2)\<lparr>nonce := 0\<rparr>\<rparr>)"
proof -
  have b7: "decodes_back example_lib
      (as_req_of (fst (example_randint 0 INT32_MAX_VAL 7)) ''svc$'' ''EXAMPLE.COM'')"
    unfolding example_randint_draws by (rule example_decodes_back) simp
  have b9: "decodes_back example_lib
      (as_req_of (fst (example_randint 0 INT32_MAX_VAL 9)) ''svc$'' ''EXAMPLE.COM'')"
    unfolding example_randint_draws by (rule example_decodes_back) simp
  have differ: "fst (build_as_req example_lib example_randint ''svc$'' ''EXAMPLE.COM'' 7)
       \<noteq> fst (build_as_req example_lib example_randint ''svc$'' ''EXAMPLE.COM'' 9)"
    by (simp add: build_as_req_bytes example_randint_draws example_lib_def as_req_of_def)
  show ?thesis
    using b7 b9 differ
      build_as_req_differs_in_nonce_only
        [of example_lib example_randint 7 "''svc$''" "''EXAMPLE.COM''" example_randint 9 0,
         OF b7 b9]
    by blast
qed

section \<open>Properties of the reading of the salt\<close>

lemmas example_simps =
  example_lib_def from_table_def example_krb_error_def example_as_rep_def
  example_padata_def example_entry_def example_krbtgt_def
  parsed_KRB_ERROR_def parsed_KRB_AS_REP_def parsed_PA_DATA_def parsed_ENTRY_def

lemmas const_simps =
  KRB_ERROR_TAG_NUMBER_def AS_REP_TAG_NUMBER_def KDC_ERR_PREAUTH_REQUIRED_def
  PA_ETYPE_INFO2_def AES128_CTS_HMAC_SHA1_96_ENC_TYPE_def AES256_CTS_HMAC_SHA1h96_ENC_TYPE_def

lemma could_not_retrieve_30:
  "could_not_retrieve 30 = Exception ''Could not retrieve salt from AS_REP (tag number 30)''"
  by (simp add: could_not_retrieve_def format_d_def)

lemma find_append_cases:
  "find P (xs @ ys) = (case find P xs of None \<Rightarrow> find P ys | Some x \<Rightarrow> Some x)"
  by (induction xs) auto

lemma find_in_set: "find P xs = Some x \<Longrightarrow> x \<in> set xs"
  by (induction xs) (auto split: if_splits)

lemma find_holds: "find P xs = Some x \<Longrightarrow> P x"
  by (induction xs) (auto split: if_splits)

subsection \<open>The loops\<close>

text \<open>On values that are well formed throughout, the loops are searches.\<close>

lemma krb_error_etype_loop_find:
  "krb_error_etype_loop (map parsed_ENTRY es) =
     Inr (map_option (\<lambda>v. str_of_native (salt v))
       (find (\<lambda>v. entry_etype v = AES256_CTS_HMAC_SHA1h96_ENC_TYPE) es))"
  by (induction es) (auto simp: parsed_ENTRY_def)

lemma krb_error_padata_loop_scan:
  "\<forall>p\<in>set ps. padata_type p = PA_ETYPE_INFO2 \<longrightarrow>
       ETYPE_INFO2_load lib (padata_value p) = Inr (map parsed_ENTRY (entries_of p)) \<Longrightarrow>
   krb_error_padata_loop lib (map parsed_PA_DATA ps) =
     Inr (map_option (\<lambda>v. str_of_native (salt v))
       (find (\<lambda>v. entry_etype v = AES256_CTS_HMAC_SHA1h96_ENC_TYPE)
          (concat (map entries_of (filter (\<lambda>p. padata_type p = PA_ETYPE_INFO2) ps)))))"
proof (induction ps)
  case Nil
  then show ?case by simp
next
  case (Cons p ps)
  then show ?case
    by (auto simp: parsed_PA_DATA_def krb_error_etype_loop_find find_append_cases
        split: option.splits)
qed

lemma as_rep_etype_loop_find:
  "as_rep_etype_loop void_id (map parsed_ENTRY es) =
     Inr (map_option (\<lambda>v. str_of_value void_id (salt v))
       (find (\<lambda>v. entry_etype v = AES256_CTS_HMAC_SHA1h96_ENC_TYPE
                \<or> entry_etype v = AES128_CTS_HMAC_SHA1_96_ENC_TYPE) es))"
  by (induction es) (auto simp: parsed_ENTRY_def)

lemma as_rep_padata_loop_scan:
  "\<forall>p\<in>set ps. padata_type p = PA_ETYPE_INFO2 \<longrightarrow>
       ETYPE_INFO2_load lib (padata_value p) = Inr (map parsed_ENTRY (entries_of p)) \<Longrightarrow>
   as_rep_padata_loop lib void_id ps =
     Inr (map_option (\<lambda>v. str_of_value void_id (salt v))
       (find (\<lambda>v. entry_etype v = AES256_CTS_HMAC_SHA1h96_ENC_TYPE
                \<or> entry_etype v = AES128_CTS_HMAC_SHA1_96_ENC_TYPE)
          (concat (map entries_of (filter (\<lambda>p. padata_type p = PA_ETYPE_INFO2) ps)))))"
proof (induction ps)
  case Nil
  then show ?case by simp
next
  case (Cons p ps)
  then show ?case
    by (auto simp: as_rep_etype_loop_find find_append_cases split: option.splits)
qed

text \<open>A loop that ran through a first part of a list without a result goes on behind it.\<close>

lemma krb_error_etype_loop_append:
  "krb_error_etype_loop before = Inr None \<Longrightarrow>
   krb_error_etype_loop (before @ rest) = krb_error_etype_loop rest"
  by (induction before) (auto split: if_splits sum.splits option.splits)

lemma krb_error_padata_loop_append:
  "krb_error_padata_loop lib pre = Inr None \<Longrightarrow>
   krb_error_padata_loop lib (pre @ rest) = krb_error_padata_loop lib rest"
  by (induction pre) (auto split: if_splits sum.splits option.splits)

lemma as_rep_etype_loop_append:
  "as_rep_etype_loop void_id before = Inr None \<Longrightarrow>
   as_rep_etype_loop void_id (before @ rest) = as_rep_etype_loop void_id rest"
  by (induction before) (auto split: if_splits sum.splits option.splits)

lemma as_rep_padata_loop_append:
  "as_rep_padata_loop lib void_id pre = Inr None \<Longrightarrow>
   as_rep_padata_loop lib void_id (pre @ rest) = as_rep_padata_loop lib void_id rest"
  by (induction pre) (auto split: if_splits sum.splits option.splits)

subsection \<open>The KRB-ERROR branch\<close>

text \<open>
  C1, as amended. For a reply whose outer tag is that of a KRB-ERROR, whose error code is
  25 (pre-authentication required), whose \<open>e-data\<close> decodes as a list of PA-DATA and whose
  ETYPE-INFO2 entries all decode (\<open>entries_of\<close> names their lists): the function scans the
  PA-DATA list in order and, inside each entry of type ETYPE-INFO2, the decoded list in
  order, and locates the first element for AES256 of this whole scan. It goes on to a
  later ETYPE-INFO2 entry when an earlier one has no such element, and fails only when
  no ETYPE-INFO2 entry has one. The salt returned is that of the located element (here
  for elements that carry one).
\<close>

theorem krb_error_scans_every_etype_info2:
  assumes tag: "Any_load_tag lib kdc_rep = Inr KRB_ERROR_TAG_NUMBER"
    and err: "KRB_ERROR_load lib kdc_rep = Inr err"
    and code: "error_code_native err = Inr KDC_ERR_PREAUTH_REQUIRED"
    and edata: "e_data_native err = Inr (Some d)"
    and pas: "PA_DATA_SEQUENCE_OF_load lib d = Inr (map parsed_PA_DATA padatas)"
    and dec: "\<forall>p\<in>set padatas. padata_type p = PA_ETYPE_INFO2 \<longrightarrow>
                ETYPE_INFO2_load lib (padata_value p) = Inr (map parsed_ENTRY (entries_of p))"
    and salted: "\<forall>p\<in>set padatas. padata_type p = PA_ETYPE_INFO2 \<longrightarrow>
                (\<forall>v\<in>set (entries_of p).
                    entry_etype v = AES256_CTS_HMAC_SHA1h96_ENC_TYPE \<longrightarrow> salt v \<noteq> None)"
  shows "get_salt_from_rep lib void_id kdc_rep =
     (case find (\<lambda>v. entry_etype v = AES256_CTS_HMAC_SHA1h96_ENC_TYPE)
             (concat (map entries_of (filter (\<lambda>p. padata_type p = PA_ETYPE_INFO2) padatas))) of
        None \<Rightarrow> Inl (could_not_retrieve KRB_ERROR_TAG_NUMBER)
      | Some v \<Rightarrow> Inr (the (salt v)))"
proof -
  let ?scan = "concat (map entries_of (filter (\<lambda>p. padata_type p = PA_ETYPE_INFO2) padatas))"
  let ?found = "find (\<lambda>v. entry_etype v = AES256_CTS_HMAC_SHA1h96_ENC_TYPE) ?scan"
  have loop: "krb_error_padata_loop lib (map parsed_PA_DATA padatas) =
      Inr (map_option (\<lambda>v. str_of_native (salt v)) ?found)"
    using dec by (rule krb_error_padata_loop_scan)
  have "str_of_native (salt v) = the (salt v)" if "?found = Some v" for v
  proof -
    from that have "v \<in> set ?scan" by (rule find_in_set)
    moreover from that have "entry_etype v = AES256_CTS_HMAC_SHA1h96_ENC_TYPE"
      by (rule find_holds)
    ultimately have "salt v \<noteq> None" using salted by auto
    then show ?thesis by (auto simp: str_of_native_def)
  qed
  then show ?thesis
    using tag err code edata pas loop
    by (auto simp: get_salt_from_rep_def split: option.splits)
qed

theorem krb_error_scans_every_etype_info2_witness:
  "Any_load_tag example_lib [0x7E, 1] = Inr KRB_ERROR_TAG_NUMBER
   \<and> KRB_ERROR_load example_lib [0x7E, 1]
       = Inr (parsed_KRB_ERROR (example_krb_error 25 (Some [0xA1])))
   \<and> PA_DATA_SEQUENCE_OF_load example_lib [0xA1]
       = Inr (map parsed_PA_DATA [example_padata [1], example_padata [2]])
   \<and> ETYPE_INFO2_load example_lib [1] = Inr (map parsed_ENTRY [example_entry 17 (Some ''A'')])
   \<and> ETYPE_INFO2_load example_lib [2] = Inr (map parsed_ENTRY [example_entry 18 (Some ''B'')])
   \<and> get_salt_from_rep example_lib 0 [0x7E, 1] = Inr ''B''"
proof -
  let ?entries_of = "\<lambda>p. if padata_value p = [1] then [example_entry 17 (Some ''A'')]
                          else [example_entry 18 (Some ''B'')]"
  let ?err = "parsed_KRB_ERROR (example_krb_error 25 (Some [0xA1]))"
  have tag: "Any_load_tag example_lib [0x7E, 1] = Inr KRB_ERROR_TAG_NUMBER"
    by (simp add: example_lib_def const_simps)
  have err: "KRB_ERROR_load example_lib [0x7E, 1] = Inr ?err"
    by (simp add: example_lib_def from_table_def)
  have code: "error_code_native ?err = Inr KDC_ERR_PREAUTH_REQUIRED"
    by (simp add: parsed_KRB_ERROR_def example_krb_error_def const_simps)
  have edata: "e_data_native ?err = Inr (Some [0xA1])"
    by (simp add: parsed_KRB_ERROR_def example_krb_error_def)
  have pas: "PA_DATA_SEQUENCE_OF_load example_lib [0xA1]
      = Inr (map parsed_PA_DATA [example_padata [1], example_padata [2]])"
    by (simp add: example_lib_def from_table_def)
  have e1: "ETYPE_INFO2_load example_lib [1]
      = Inr (map parsed_ENTRY [example_entry 17 (Some ''A'')])"
    and e2: "ETYPE_INFO2_load example_lib [2]
      = Inr (map parsed_ENTRY [example_entry 18 (Some ''B'')])"
    by (simp_all add: example_lib_def from_table_def)
  have dec: "\<forall>p\<in>set [example_padata [1], example_padata [2]].
      padata_type p = PA_ETYPE_INFO2 \<longrightarrow>
        ETYPE_INFO2_load example_lib (padata_value p) = Inr (map parsed_ENTRY (?entries_of p))"
    using e1 e2 by (simp add: example_padata_def)
  have salted: "\<forall>p\<in>set [example_padata [1], example_padata [2]].
      padata_type p = PA_ETYPE_INFO2 \<longrightarrow>
        (\<forall>v\<in>set (?entries_of p).
            entry_etype v = AES256_CTS_HMAC_SHA1h96_ENC_TYPE \<longrightarrow> salt v \<noteq> None)"
    by (simp add: example_padata_def example_entry_def)
  have "get_salt_from_rep example_lib 0 [0x7E, 1] = Inr ''B''"
    using krb_error_scans_every_etype_info2 [OF tag err code edata pas dec salted, of 0]
    by (simp add: example_padata_def example_entry_def const_simps)
  with tag err pas e1 e2 show ?thesis by simp
qed

text \<open>
  C1, as stated, fails on a KRB-ERROR reply whose \<open>e-data\<close> holds two ETYPE-INFO2
  entries, the first with one element for AES128 and the second with one element for
  AES256 and salt \<open>B\<close>. The claim stops at the first entry and fails; the function goes
  on to the second and returns \<open>B\<close>.
\<close>

theorem krb_error_first_etype_info2_only_counterexample:
  "PA_DATA_SEQUENCE_OF_load example_lib [0xA1]
     = Inr (map parsed_PA_DATA [example_padata [1], example_padata [2]])
   \<and> first_etype_info2_only example_lib
         (map parsed_PA_DATA [example_padata [1], example_padata [2]])
       = Inl (could_not_retrieve 30)
   \<and> get_salt_from_rep example_lib 0 [0x7E, 1] = Inr ''B''"
  by (simp add: get_salt_from_rep_def first_etype_info2_only_def example_simps const_simps
      str_of_native_def)

text \<open>
  C2 names a defect of the function. On a KRB-ERROR reply (error code 25) whose first
  element for AES256 has no salt, the function does not fail: \<^verbatim>\<open>str\<close> of the absent
  field's \<^verbatim>\<open>native\<close>, which is \<^verbatim>\<open>None\<close>, is returned, the four letters \<open>None\<close>.
\<close>

theorem krb_error_absent_salt_returns_None:
  "get_salt_from_rep example_lib 0 [0x7E, 2] = Inr ''None''"
  by (simp add: get_salt_from_rep_def example_simps const_simps str_of_native_def)

text \<open>
  C3. For a reply whose outer tag is that of a KRB-ERROR and whose error code is not 25,
  the function returns no salt: it fails with the exception of its last line, the only
  exception that the module raises itself, whose message carries the tag number 30.
  Nothing but the error code is read of such a reply.
\<close>

theorem krb_error_other_code_fails:
  "Any_load_tag lib kdc_rep = Inr KRB_ERROR_TAG_NUMBER \<Longrightarrow>
   KRB_ERROR_load lib kdc_rep = Inr err \<Longrightarrow>
   error_code_native err = Inr code \<Longrightarrow>
   code \<noteq> KDC_ERR_PREAUTH_REQUIRED \<Longrightarrow>
   get_salt_from_rep lib void_id kdc_rep
     = Inl (Exception ''Could not retrieve salt from AS_REP (tag number 30)'')"
  by (simp add: get_salt_from_rep_def could_not_retrieve_30 [symmetric] KRB_ERROR_TAG_NUMBER_def)

theorem krb_error_other_code_fails_witness:
  "Any_load_tag example_lib [0x7E, 3] = Inr KRB_ERROR_TAG_NUMBER
   \<and> KRB_ERROR_load example_lib [0x7E, 3] = Inr (parsed_KRB_ERROR (example_krb_error 6 None))
   \<and> error_code_native (parsed_KRB_ERROR (example_krb_error 6 None)) = Inr 6
   \<and> 6 \<noteq> KDC_ERR_PREAUTH_REQUIRED
   \<and> get_salt_from_rep example_lib 0 [0x7E, 3]
       = Inl (Exception ''Could not retrieve salt from AS_REP (tag number 30)'')"
proof -
  have tag: "Any_load_tag example_lib [0x7E, 3] = Inr KRB_ERROR_TAG_NUMBER"
    by (simp add: example_lib_def const_simps)
  have err: "KRB_ERROR_load example_lib [0x7E, 3]
      = Inr (parsed_KRB_ERROR (example_krb_error 6 None))"
    by (simp add: example_lib_def from_table_def)
  have code: "error_code_native (parsed_KRB_ERROR (example_krb_error 6 None)) = Inr 6"
    by (simp add: parsed_KRB_ERROR_def example_krb_error_def)
  have other: "6 \<noteq> KDC_ERR_PREAUTH_REQUIRED"
    by (simp add: const_simps)
  show ?thesis
    using tag err code other krb_error_other_code_fails [OF tag err code other, of 0] by simp
qed

subsection \<open>The AS-REP branch\<close>

text \<open>
  What the AS-REP branch does on a reply whose padata is present and whose ETYPE-INFO2
  entries all decode: it returns the text of the salt field of the first element, in the
  order of the scan, whose type is AES256 or AES128, and fails when there is none.
\<close>

lemma as_rep_returns_first_match:
  assumes tag: "Any_load_tag lib kdc_rep = Inr AS_REP_TAG_NUMBER"
    and rep: "KRB_AS_REP_load lib kdc_rep = Inr as_rep"
    and pas: "padata_native as_rep = Inr (Some padatas)"
    and dec: "\<forall>p\<in>set padatas. padata_type p = PA_ETYPE_INFO2 \<longrightarrow>
                ETYPE_INFO2_load lib (padata_value p) = Inr (map parsed_ENTRY (entries_of p))"
  shows "get_salt_from_rep lib void_id kdc_rep =
     (case find (\<lambda>v. entry_etype v = AES256_CTS_HMAC_SHA1h96_ENC_TYPE
                     \<or> entry_etype v = AES128_CTS_HMAC_SHA1_96_ENC_TYPE)
             (concat (map entries_of (filter (\<lambda>p. padata_type p = PA_ETYPE_INFO2) padatas))) of
        None \<Rightarrow> Inl (could_not_retrieve AS_REP_TAG_NUMBER)
      | Some v \<Rightarrow> Inr (str_of_value void_id (salt v)))"
proof -
  have "as_rep_padata_loop lib void_id padatas =
      Inr (map_option (\<lambda>v. str_of_value void_id (salt v))
        (find (\<lambda>v. entry_etype v = AES256_CTS_HMAC_SHA1h96_ENC_TYPE
                  \<or> entry_etype v = AES128_CTS_HMAC_SHA1_96_ENC_TYPE)
           (concat (map entries_of (filter (\<lambda>p. padata_type p = PA_ETYPE_INFO2) padatas)))))"
    using dec by (rule as_rep_padata_loop_scan)
  then show ?thesis
    using tag rep pas
    by (auto simp: get_salt_from_rep_def const_simps split: option.splits)
qed

text \<open>
  C4 names a defect of the function. On the AS-REP reply whose ETYPE-INFO2 list is
  \<open>[{AES128, A}, {AES256, B}]\<close> the function returns \<open>A\<close>, as claimed. On an AS-REP
  reply whose first element for AES128 or AES256 has no salt it does not fail: it returns
  the text of the library's object for an absent field, which holds the address of that
  object (1402 in this run).
\<close>

theorem as_rep_absent_salt_returns_void_text:
  "get_salt_from_rep example_lib 1402 [0x6B, 1] = Inr ''A''
   \<and> get_salt_from_rep example_lib 1402 [0x6B, 2]
       = Inr (''<asn1crypto.core.Void 1402 b'' @ [CHR 0x27, CHR 0x27] @ ''>'')"
  by (simp add: get_salt_from_rep_def example_simps const_simps str_of_value_def)

subsection \<open>Failures\<close>

text \<open>
  An element that is malformed behind the one at which a loop returns is never read:
  the ETYPE-INFO2 list of this reply is an element for AES256 with the salt \<open>B\<close> and a
  second element of which nothing can be read, and the function returns \<open>B\<close>.
\<close>

lemma malformed_behind_the_match_is_not_read:
  "ETYPE_INFO2_load example_lib [9]
     = Inr [parsed_ENTRY (example_entry 18 (Some ''B'')),
            \<lparr>etype_native = Inl (unreadable ''etype''), salt_read = Inl (unreadable ''salt'')\<rparr>]
   \<and> get_salt_from_rep example_lib 0 [0x7E, 15] = Inr ''B''"
  by (simp add: get_salt_from_rep_def example_simps const_simps str_of_native_def)

text \<open>
  C5. A reply whose outer tag is neither 11 nor 30 makes the function fail with its own
  exception, whose message carries the tag observed. An exception raised by a read that
  the function makes is the outcome of the function, unchanged. The reads, in the order
  of the conjuncts: the outer tag; in the KRB-ERROR branch the load, the error code, the
  \<open>e-data\<close> (an absent one is the TypeError of \<^verbatim>\<open>load(None)\<close>), the load of the PA-DATA
  list, and the scan of that list; in the AS-REP branch the load, the padata (an absent
  one is the TypeError of the iteration over \<^verbatim>\<open>None\<close>), and the scan of the padata. A
  scan fails at an element it reaches, that is when its loop ran through the elements
  before without a result: the outer loop of the KRB-ERROR branch at the type of the
  PA-DATA, and for the type ETYPE-INFO2 at its value, at the load of the value, and in
  the inner loop; the inner loop at the type of the element, and for AES256 at its salt;
  the outer loop of the AS-REP branch, for the type ETYPE-INFO2, at the load of the
  value and in the inner loop; its inner loop at the type of the element, and for
  AES256 or AES128 at its salt.
\<close>

theorem other_tag_or_decode_failure_fails:
  "(Any_load_tag lib kdc_rep = Inr tag \<and> tag \<noteq> AS_REP_TAG_NUMBER \<and> tag \<noteq> KRB_ERROR_TAG_NUMBER
      \<longrightarrow> get_salt_from_rep lib void_id kdc_rep
            = Inl (Exception (''Could not retrieve salt from AS_REP (tag number ''
                                @ format_d tag @ '')'')))
   \<and> (Any_load_tag lib kdc_rep = Inl e
      \<longrightarrow> get_salt_from_rep lib void_id kdc_rep = Inl e)
   \<and> (Any_load_tag lib kdc_rep = Inr KRB_ERROR_TAG_NUMBER \<and> KRB_ERROR_load lib kdc_rep = Inl e
      \<longrightarrow> get_salt_from_rep lib void_id kdc_rep = Inl e)
   \<and> (Any_load_tag lib kdc_rep = Inr KRB_ERROR_TAG_NUMBER \<and> KRB_ERROR_load lib kdc_rep = Inr err
        \<and> error_code_native err = Inl e
      \<longrightarrow> get_salt_from_rep lib void_id kdc_rep = Inl e)
   \<and> (Any_load_tag lib kdc_rep = Inr KRB_ERROR_TAG_NUMBER \<and> KRB_ERROR_load lib kdc_rep = Inr err
        \<and> error_code_native err = Inr KDC_ERR_PREAUTH_REQUIRED
        \<and> e_data_native err = Inl e
      \<longrightarrow> get_salt_from_rep lib void_id kdc_rep = Inl e)
   \<and> (Any_load_tag lib kdc_rep = Inr KRB_ERROR_TAG_NUMBER \<and> KRB_ERROR_load lib kdc_rep = Inr err
        \<and> error_code_native err = Inr KDC_ERR_PREAUTH_REQUIRED
        \<and> e_data_native err = Inr None
      \<longrightarrow> get_salt_from_rep lib void_id kdc_rep = Inl load_of_None)
   \<and> (Any_load_tag lib kdc_rep = Inr KRB_ERROR_TAG_NUMBER \<and> KRB_ERROR_load lib kdc_rep = Inr err
        \<and> error_code_native err = Inr KDC_ERR_PREAUTH_REQUIRED
        \<and> e_data_native err = Inr (Some d) \<and> PA_DATA_SEQUENCE_OF_load lib d = Inl e
      \<longrightarrow> get_salt_from_rep lib void_id kdc_rep = Inl e)
   \<and> (Any_load_tag lib kdc_rep = Inr KRB_ERROR_TAG_NUMBER \<and> KRB_ERROR_load lib kdc_rep = Inr err
        \<and> error_code_native err = Inr KDC_ERR_PREAUTH_REQUIRED
        \<and> e_data_native err = Inr (Some d) \<and> PA_DATA_SEQUENCE_OF_load lib d = Inr padatas
        \<and> krb_error_padata_loop lib padatas = Inl e
      \<longrightarrow> get_salt_from_rep lib void_id kdc_rep = Inl e)
   \<and> (Any_load_tag lib kdc_rep = Inr AS_REP_TAG_NUMBER \<and> KRB_AS_REP_load lib kdc_rep = Inl e
      \<longrightarrow> get_salt_from_rep lib void_id kdc_rep = Inl e)
   \<and> (Any_load_tag lib kdc_rep = Inr AS_REP_TAG_NUMBER \<and> KRB_AS_REP_load lib kdc_rep = Inr as_rep
        \<and> padata_native as_rep = Inl e
      \<longrightarrow> get_salt_from_rep lib void_id kdc_rep = Inl e)
   \<and> (Any_load_tag lib kdc_rep = Inr AS_REP_TAG_NUMBER \<and> KRB_AS_REP_load lib kdc_rep = Inr as_rep
        \<and> padata_native as_rep = Inr None
      \<longrightarrow> get_salt_from_rep lib void_id kdc_rep = Inl iteration_over_None)
   \<and> (Any_load_tag lib kdc_rep = Inr AS_REP_TAG_NUMBER \<and> KRB_AS_REP_load lib kdc_rep = Inr as_rep
        \<and> padata_native as_rep = Inr (Some natives)
        \<and> as_rep_padata_loop lib void_id natives = Inl e
      \<longrightarrow> get_salt_from_rep lib void_id kdc_rep = Inl e)
   \<and> (krb_error_padata_loop lib pre = Inr None \<and> padata_type_native p = Inl e
      \<longrightarrow> krb_error_padata_loop lib (pre @ p # post) = Inl e)
   \<and> (krb_error_padata_loop lib pre = Inr None \<and> padata_type_native p = Inr PA_ETYPE_INFO2
        \<and> padata_value_native p = Inl e
      \<longrightarrow> krb_error_padata_loop lib (pre @ p # post) = Inl e)
   \<and> (krb_error_padata_loop lib pre = Inr None \<and> padata_type_native p = Inr PA_ETYPE_INFO2
        \<and> padata_value_native p = Inr v \<and> ETYPE_INFO2_load lib v = Inl e
      \<longrightarrow> krb_error_padata_loop lib (pre @ p # post) = Inl e)
   \<and> (krb_error_padata_loop lib pre = Inr None \<and> padata_type_native p = Inr PA_ETYPE_INFO2
        \<and> padata_value_native p = Inr v \<and> ETYPE_INFO2_load lib v = Inr entries
        \<and> krb_error_etype_loop entries = Inl e
      \<longrightarrow> krb_error_padata_loop lib (pre @ p # post) = Inl e)
   \<and> (krb_error_etype_loop before = Inr None \<and> etype_native x = Inl e
      \<longrightarrow> krb_error_etype_loop (before @ x # behind) = Inl e)
   \<and> (krb_error_etype_loop before = Inr None \<and> etype_native x = Inr AES256_CTS_HMAC_SHA1h96_ENC_TYPE
        \<and> salt_read x = Inl e
      \<longrightarrow> krb_error_etype_loop (before @ x # behind) = Inl e)
   \<and> (as_rep_padata_loop lib void_id npre = Inr None \<and> padata_type q = PA_ETYPE_INFO2
        \<and> ETYPE_INFO2_load lib (padata_value q) = Inl e
      \<longrightarrow> as_rep_padata_loop lib void_id (npre @ q # npost) = Inl e)
   \<and> (as_rep_padata_loop lib void_id npre = Inr None \<and> padata_type q = PA_ETYPE_INFO2
        \<and> ETYPE_INFO2_load lib (padata_value q) = Inr entries
        \<and> as_rep_etype_loop void_id entries = Inl e
      \<longrightarrow> as_rep_padata_loop lib void_id (npre @ q # npost) = Inl e)
   \<and> (as_rep_etype_loop void_id before = Inr None \<and> etype_native x = Inl e
      \<longrightarrow> as_rep_etype_loop void_id (before @ x # behind) = Inl e)
   \<and> (as_rep_etype_loop void_id before = Inr None
        \<and> (etype_native x = Inr AES256_CTS_HMAC_SHA1h96_ENC_TYPE \<or> etype_native x = Inr AES128_CTS_HMAC_SHA1_96_ENC_TYPE)
        \<and> salt_read x = Inl e
      \<longrightarrow> as_rep_etype_loop void_id (before @ x # behind) = Inl e)"
  by (intro conjI impI)
    (auto simp: get_salt_from_rep_def could_not_retrieve_def
      krb_error_padata_loop_append krb_error_etype_loop_append
      as_rep_padata_loop_append as_rep_etype_loop_append
      KRB_ERROR_TAG_NUMBER_def AS_REP_TAG_NUMBER_def)

theorem other_tag_or_decode_failure_fails_witness:
  "get_salt_from_rep example_lib 0 [0x6A, 0]
      = Inl (Exception ''Could not retrieve salt from AS_REP (tag number 10)'')
   \<and> get_salt_from_rep example_lib 0 [] = Inl (ValueError ''Insufficient data'')
   \<and> get_salt_from_rep example_lib 0 [0x7E, 9] = Inl (unreadable ''KRB_ERROR'')
   \<and> get_salt_from_rep example_lib 0 [0x7E, 7] = Inl (unreadable ''error-code'')
   \<and> get_salt_from_rep example_lib 0 [0x7E, 8] = Inl (unreadable ''e-data'')
   \<and> get_salt_from_rep example_lib 0 [0x7E, 10] = Inl load_of_None
   \<and> get_salt_from_rep example_lib 0 [0x7E, 5] = Inl (unreadable ''PA_DATA_SEQUENCE_OF'')
   \<and> get_salt_from_rep example_lib 0 [0x7E, 14] = Inl (unreadable ''salt'')
   \<and> get_salt_from_rep example_lib 0 [0x6B, 9] = Inl (unreadable ''KRB_AS_REP'')
   \<and> get_salt_from_rep example_lib 0 [0x6B, 4] = Inl (unreadable ''padata'')
   \<and> get_salt_from_rep example_lib 0 [0x6B, 5] = Inl iteration_over_None
   \<and> get_salt_from_rep example_lib 0 [0x6B, 7] = Inl (unreadable ''salt'')
   \<and> krb_error_padata_loop example_lib [\<lparr>padata_type_native = Inr 2, padata_value_native = Inr []\<rparr>,
        \<lparr>padata_type_native = Inl (unreadable ''padata-type''), padata_value_native = Inr []\<rparr>]
      = Inl (unreadable ''padata-type'')
   \<and> krb_error_padata_loop example_lib [\<lparr>padata_type_native = Inr 2, padata_value_native = Inr []\<rparr>,
        \<lparr>padata_type_native = Inr 19, padata_value_native = Inl (unreadable ''padata-value'')\<rparr>]
      = Inl (unreadable ''padata-value'')
   \<and> krb_error_padata_loop example_lib [parsed_PA_DATA (example_padata [1]), parsed_PA_DATA (example_padata [0xFF])]
      = Inl (unreadable ''ETYPE_INFO2'')
   \<and> krb_error_padata_loop example_lib [parsed_PA_DATA (example_padata [1]), parsed_PA_DATA (example_padata [7])]
      = Inl (unreadable ''etype'')
   \<and> krb_error_etype_loop [parsed_ENTRY (example_entry 17 (Some ''A'')),
        \<lparr>etype_native = Inl (unreadable ''etype''), salt_read = Inr None\<rparr>]
      = Inl (unreadable ''etype'')
   \<and> krb_error_etype_loop [parsed_ENTRY (example_entry 17 (Some ''A'')),
        \<lparr>etype_native = Inr 18, salt_read = Inl (unreadable ''salt'')\<rparr>]
      = Inl (unreadable ''salt'')
   \<and> as_rep_padata_loop example_lib 0 [\<lparr>padata_type = 2, padata_value = []\<rparr>, example_padata [0xFF]]
      = Inl (unreadable ''ETYPE_INFO2'')
   \<and> as_rep_padata_loop example_lib 0 [\<lparr>padata_type = 2, padata_value = []\<rparr>, example_padata [10]]
      = Inl (unreadable ''salt'')
   \<and> as_rep_etype_loop 0 [parsed_ENTRY (example_entry 3 (Some ''A'')),
        \<lparr>etype_native = Inl (unreadable ''etype''), salt_read = Inr None\<rparr>]
      = Inl (unreadable ''etype'')
   \<and> as_rep_etype_loop 0 [parsed_ENTRY (example_entry 3 (Some ''A'')),
        \<lparr>etype_native = Inr 17, salt_read = Inl (unreadable ''salt'')\<rparr>]
      = Inl (unreadable ''salt'')"
proof -
  note parts = other_tag_or_decode_failure_fails [where lib = example_lib and void_id = 0]
  have f1: "get_salt_from_rep example_lib 0 [0x6A, 0]
      = Inl (Exception ''Could not retrieve salt from AS_REP (tag number 10)'')"
    using parts [where kdc_rep = "[0x6A, 0]" and tag = "10",
        THEN conjunct1]
    by (simp add: example_simps const_simps format_d_def)
  have f2: "get_salt_from_rep example_lib 0 [] = Inl (ValueError ''Insufficient data'')"
    using parts [where kdc_rep = "[]" and e = "ValueError ''Insufficient data''",
        THEN conjunct2, THEN conjunct1]
    by (simp add: example_simps const_simps format_d_def)
  have f3: "get_salt_from_rep example_lib 0 [0x7E, 9] = Inl (unreadable ''KRB_ERROR'')"
    using parts [where kdc_rep = "[0x7E, 9]" and e = "unreadable ''KRB_ERROR''",
        THEN conjunct2, THEN conjunct2, THEN conjunct1]
    by (simp add: example_simps const_simps format_d_def)
  have f4: "get_salt_from_rep example_lib 0 [0x7E, 7] = Inl (unreadable ''error-code'')"
    using parts [where kdc_rep = "[0x7E, 7]" and e = "unreadable ''error-code''" and err = "\<lparr>error_code_native = Inl (unreadable ''error-code''), e_data_native = Inr None\<rparr>",
        THEN conjunct2, THEN conjunct2, THEN conjunct2, THEN conjunct1]
    by (simp add: example_simps const_simps format_d_def)
  have f5: "get_salt_from_rep example_lib 0 [0x7E, 8] = Inl (unreadable ''e-data'')"
    using parts [where kdc_rep = "[0x7E, 8]" and e = "unreadable ''e-data''" and err = "\<lparr>error_code_native = Inr 25, e_data_native = Inl (unreadable ''e-data'')\<rparr>",
        THEN conjunct2, THEN conjunct2, THEN conjunct2, THEN conjunct2, THEN conjunct1]
    by (simp add: example_simps const_simps format_d_def)
  have f6: "get_salt_from_rep example_lib 0 [0x7E, 10] = Inl load_of_None"
    using parts [where kdc_rep = "[0x7E, 10]" and err = "parsed_KRB_ERROR (example_krb_error 25 None)",
        THEN conjunct2, THEN conjunct2, THEN conjunct2, THEN conjunct2, THEN conjunct2, THEN conjunct1]
    by (simp add: example_simps const_simps format_d_def)
  have f7: "get_salt_from_rep example_lib 0 [0x7E, 5] = Inl (unreadable ''PA_DATA_SEQUENCE_OF'')"
    using parts [where kdc_rep = "[0x7E, 5]" and err = "parsed_KRB_ERROR (example_krb_error 25 (Some [0xA5]))" and d = "[0xA5]" and e = "unreadable ''PA_DATA_SEQUENCE_OF''",
        THEN conjunct2, THEN conjunct2, THEN conjunct2, THEN conjunct2, THEN conjunct2, THEN conjunct2, THEN conjunct1]
    by (simp add: example_simps const_simps format_d_def)
  have f8: "get_salt_from_rep example_lib 0 [0x7E, 14] = Inl (unreadable ''salt'')"
    using parts [where kdc_rep = "[0x7E, 14]" and err = "parsed_KRB_ERROR (example_krb_error 25 (Some [0xAE]))" and d = "[0xAE]" and padatas = "map parsed_PA_DATA [example_padata [8]]" and e = "unreadable ''salt''",
        THEN conjunct2, THEN conjunct2, THEN conjunct2, THEN conjunct2, THEN conjunct2, THEN conjunct2, THEN conjunct2, THEN conjunct1]
    by (simp add: example_simps const_simps format_d_def)
  have f9: "get_salt_from_rep example_lib 0 [0x6B, 9] = Inl (unreadable ''KRB_AS_REP'')"
    using parts [where kdc_rep = "[0x6B, 9]" and e = "unreadable ''KRB_AS_REP''",
        THEN conjunct2, THEN conjunct2, THEN conjunct2, THEN conjunct2, THEN conjunct2, THEN conjunct2, THEN conjunct2, THEN conjunct2, THEN conjunct1]
    by (simp add: example_simps const_simps format_d_def)
  have f10: "get_salt_from_rep example_lib 0 [0x6B, 4] = Inl (unreadable ''padata'')"
    using parts [where kdc_rep = "[0x6B, 4]" and as_rep = "\<lparr>padata_native = Inl (unreadable ''padata'')\<rparr>" and e = "unreadable ''padata''",
        THEN conjunct2, THEN conjunct2, THEN conjunct2, THEN conjunct2, THEN conjunct2, THEN conjunct2, THEN conjunct2, THEN conjunct2, THEN conjunct2, THEN conjunct1]
    by (simp add: example_simps const_simps format_d_def)
  have f11: "get_salt_from_rep example_lib 0 [0x6B, 5] = Inl iteration_over_None"
    using parts [where kdc_rep = "[0x6B, 5]" and as_rep = "parsed_KRB_AS_REP (example_as_rep None)",
        THEN conjunct2, THEN conjunct2, THEN conjunct2, THEN conjunct2, THEN conjunct2, THEN conjunct2, THEN conjunct2, THEN conjunct2, THEN conjunct2, THEN conjunct2, THEN conjunct1]
    by (simp add: example_simps const_simps format_d_def)
  have f12: "get_salt_from_rep example_lib 0 [0x6B, 7] = Inl (unreadable ''salt'')"
    using parts [where kdc_rep = "[0x6B, 7]" and as_rep = "parsed_KRB_AS_REP (example_as_rep (Some [example_padata [10]]))" and natives = "[example_padata [10]]" and e = "unreadable ''salt''",
        THEN conjunct2, THEN conjunct2, THEN conjunct2, THEN conjunct2, THEN conjunct2, THEN conjunct2, THEN conjunct2, THEN conjunct2, THEN conjunct2, THEN conjunct2, THEN conjunct2, THEN conjunct1]
    by (simp add: example_simps const_simps format_d_def)
  have f13: "krb_error_padata_loop example_lib [\<lparr>padata_type_native = Inr 2, padata_value_native = Inr []\<rparr>,
        \<lparr>padata_type_native = Inl (unreadable ''padata-type''), padata_value_native = Inr []\<rparr>]
      = Inl (unreadable ''padata-type'')"
    using parts [where pre = "[\<lparr>padata_type_native = Inr 2, padata_value_native = Inr []\<rparr>]" and p = "\<lparr>padata_type_native = Inl (unreadable ''padata-type''), padata_value_native = Inr []\<rparr>" and post = "[]" and e = "unreadable ''padata-type''",
        THEN conjunct2, THEN conjunct2, THEN conjunct2, THEN conjunct2, THEN conjunct2, THEN conjunct2, THEN conjunct2, THEN conjunct2, THEN conjunct2, THEN conjunct2, THEN conjunct2, THEN conjunct2, THEN conjunct1]
    by (simp add: example_simps const_simps format_d_def)
  have f14: "krb_error_padata_loop example_lib [\<lparr>padata_type_native = Inr 2, padata_value_native = Inr []\<rparr>,
        \<lparr>padata_type_native = Inr 19, padata_value_native = Inl (unreadable ''padata-value'')\<rparr>]
      = Inl (unreadable ''padata-value'')"
    using parts [where pre = "[\<lparr>padata_type_native = Inr 2, padata_value_native = Inr []\<rparr>]" and p = "\<lparr>padata_type_native = Inr 19, padata_value_native = Inl (unreadable ''padata-value'')\<rparr>" and post = "[]" and e = "unreadable ''padata-value''",
        THEN conjunct2, THEN conjunct2, THEN conjunct2, THEN conjunct2, THEN conjunct2, THEN conjunct2, THEN conjunct2, THEN conjunct2, THEN conjunct2, THEN conjunct2, THEN conjunct2, THEN conjunct2, THEN conjunct2, THEN conjunct1]
    by (simp add: example_simps const_simps format_d_def)
  have f15: "krb_error_padata_loop example_lib [parsed_PA_DATA (example_padata [1]), parsed_PA_DATA (example_padata [0xFF])]
      = Inl (unreadable ''ETYPE_INFO2'')"
    using parts [where pre = "[parsed_PA_DATA (example_padata [1])]" and p = "parsed_PA_DATA (example_padata [0xFF])" and post = "[]" and v = "[0xFF]" and e = "unreadable ''ETYPE_INFO2''",
        THEN conjunct2, THEN conjunct2, THEN conjunct2, THEN conjunct2, THEN conjunct2, THEN conjunct2, THEN conjunct2, THEN conjunct2, THEN conjunct2, THEN conjunct2, THEN conjunct2, THEN conjunct2, THEN conjunct2, THEN conjunct2, THEN conjunct1]
    by (simp add: example_simps const_simps format_d_def)
  have f16: "krb_error_padata_loop example_lib [parsed_PA_DATA (example_padata [1]), parsed_PA_DATA (example_padata [7])]
      = Inl (unreadable ''etype'')"
    using parts [where pre = "[parsed_PA_DATA (example_padata [1])]" and p = "parsed_PA_DATA (example_padata [7])" and post = "[]" and v = "[7]" and entries = "[\<lparr>etype_native = Inl (unreadable ''etype''), salt_read = Inr None\<rparr>]" and e = "unreadable ''etype''",
        THEN conjunct2, THEN conjunct2, THEN conjunct2, THEN conjunct2, THEN conjunct2, THEN conjunct2, THEN conjunct2, THEN conjunct2, THEN conjunct2, THEN conjunct2, THEN conjunct2, THEN conjunct2, THEN conjunct2, THEN conjunct2, THEN conjunct2, THEN conjunct1]
    by (simp add: example_simps const_simps format_d_def)
  have f17: "krb_error_etype_loop [parsed_ENTRY (example_entry 17 (Some ''A'')),
        \<lparr>etype_native = Inl (unreadable ''etype''), salt_read = Inr None\<rparr>]
      = Inl (unreadable ''etype'')"
    using parts [where before = "[parsed_ENTRY (example_entry 17 (Some ''A''))]" and x = "\<lparr>etype_native = Inl (unreadable ''etype''), salt_read = Inr None\<rparr>" and behind = "[]" and e = "unreadable ''etype''",
        THEN conjunct2, THEN conjunct2, THEN conjunct2, THEN conjunct2, THEN conjunct2, THEN conjunct2, THEN conjunct2, THEN conjunct2, THEN conjunct2, THEN conjunct2, THEN conjunct2, THEN conjunct2, THEN conjunct2, THEN conjunct2, THEN conjunct2, THEN conjunct2, THEN conjunct1]
    by (simp add: example_simps const_simps format_d_def)
  have f18: "krb_error_etype_loop [parsed_ENTRY (example_entry 17 (Some ''A'')),
        \<lparr>etype_native = Inr 18, salt_read = Inl (unreadable ''salt'')\<rparr>]
      = Inl (unreadable ''salt'')"
    using parts [where before = "[parsed_ENTRY (example_entry 17 (Some ''A''))]" and x = "\<lparr>etype_native = Inr 18, salt_read = Inl (unreadable ''salt'')\<rparr>" and behind = "[]" and e = "unreadable ''salt''",
        THEN conjunct2, THEN conjunct2, THEN conjunct2, THEN conjunct2, THEN conjunct2, THEN conjunct2, THEN conjunct2, THEN conjunct2, THEN conjunct2, THEN conjunct2, THEN conjunct2, THEN conjunct2, THEN conjunct2, THEN conjunct2, THEN conjunct2, THEN conjunct2, THEN conjunct2, THEN conjunct1]
    by (simp add: example_simps const_simps format_d_def)
  have f19: "as_rep_padata_loop example_lib 0 [\<lparr>padata_type = 2, padata_value = []\<rparr>, example_padata [0xFF]]
      = Inl (unreadable ''ETYPE_INFO2'')"
    using parts [where npre = "[\<lparr>padata_type = 2, padata_value = []\<rparr>]" and q = "example_padata [0xFF]" and npost = "[]" and e = "unreadable ''ETYPE_INFO2''",
        THEN conjunct2, THEN conjunct2, THEN conjunct2, THEN conjunct2, THEN conjunct2, THEN conjunct2, THEN conjunct2, THEN conjunct2, THEN conjunct2, THEN conjunct2, THEN conjunct2, THEN conjunct2, THEN conjunct2, THEN conjunct2, THEN conjunct2, THEN conjunct2, THEN conjunct2, THEN conjunct2, THEN conjunct1]
    by (simp add: example_simps const_simps format_d_def)
  have f20: "as_rep_padata_loop example_lib 0 [\<lparr>padata_type = 2, padata_value = []\<rparr>, example_padata [10]]
      = Inl (unreadable ''salt'')"
    using parts [where npre = "[\<lparr>padata_type = 2, padata_value = []\<rparr>]" and q = "example_padata [10]" and npost = "[]" and entries = "[\<lparr>etype_native = Inr 17, salt_read = Inl (unreadable ''salt'')\<rparr>]" and e = "unreadable ''salt''",
        THEN conjunct2, THEN conjunct2, THEN conjunct2, THEN conjunct2, THEN conjunct2, THEN conjunct2, THEN conjunct2, THEN conjunct2, THEN conjunct2, THEN conjunct2, THEN conjunct2, THEN conjunct2, THEN conjunct2, THEN conjunct2, THEN conjunct2, THEN conjunct2, THEN conjunct2, THEN conjunct2, THEN conjunct2, THEN conjunct1]
    by (simp add: example_simps const_simps format_d_def)
  have f21: "as_rep_etype_loop 0 [parsed_ENTRY (example_entry 3 (Some ''A'')),
        \<lparr>etype_native = Inl (unreadable ''etype''), salt_read = Inr None\<rparr>]
      = Inl (unreadable ''etype'')"
    using parts [where before = "[parsed_ENTRY (example_entry 3 (Some ''A''))]" and x = "\<lparr>etype_native = Inl (unreadable ''etype''), salt_read = Inr None\<rparr>" and behind = "[]" and e = "unreadable ''etype''",
        THEN conjunct2, THEN conjunct2, THEN conjunct2, THEN conjunct2, THEN conjunct2, THEN conjunct2, THEN conjunct2, THEN conjunct2, THEN conjunct2, THEN conjunct2, THEN conjunct2, THEN conjunct2, THEN conjunct2, THEN conjunct2, THEN conjunct2, THEN conjunct2, THEN conjunct2, THEN conjunct2, THEN conjunct2, THEN conjunct2, THEN conjunct1]
    by (simp add: example_simps const_simps format_d_def)
  have f22: "as_rep_etype_loop 0 [parsed_ENTRY (example_entry 3 (Some ''A'')),
        \<lparr>etype_native = Inr 17, salt_read = Inl (unreadable ''salt'')\<rparr>]
      = Inl (unreadable ''salt'')"
    using parts [where before = "[parsed_ENTRY (example_entry 3 (Some ''A''))]" and x = "\<lparr>etype_native = Inr 17, salt_read = Inl (unreadable ''salt'')\<rparr>" and behind = "[]" and e = "unreadable ''salt''",
        THEN conjunct2, THEN conjunct2, THEN conjunct2, THEN conjunct2, THEN conjunct2, THEN conjunct2, THEN conjunct2, THEN conjunct2, THEN conjunct2, THEN conjunct2, THEN conjunct2, THEN conjunct2, THEN conjunct2, THEN conjunct2, THEN conjunct2, THEN conjunct2, THEN conjunct2, THEN conjunct2, THEN conjunct2, THEN conjunct2, THEN conjunct2]
    by (simp add: example_simps const_simps format_d_def)
  from f1 f2 f3 f4 f5 f6 f7 f8 f9 f10 f11 f12 f13 f14 f15 f16 f17 f18 f19 f20 f21 f22 show ?thesis by simp
qed

subsection \<open>Dependence on the process\<close>

text \<open>
  The address of the library's object for an absent field reaches the result in one case
  only: outside the AS-REP branch the result is the same at every address.
\<close>

lemma get_salt_from_rep_outside_as_rep:
  "Any_load_tag lib kdc_rep \<noteq> Inr AS_REP_TAG_NUMBER \<Longrightarrow>
   get_salt_from_rep lib i kdc_rep = get_salt_from_rep lib j kdc_rep"
  by (auto simp: get_salt_from_rep_def split: sum.splits)

text \<open>
  C10 names a defect of the function. On an AS-REP reply whose first element for AES128
  or AES256 has no salt, the text returned holds the address of an object of the running
  process: the same bytes give two different results in two processes that hold the
  object at the addresses 1 and 2.
\<close>

theorem get_salt_from_rep_depends_on_address:
  "get_salt_from_rep example_lib 1 [0x6B, 2] \<noteq> get_salt_from_rep example_lib 2 [0x6B, 2]"
  by (simp add: get_salt_from_rep_def example_simps const_simps str_of_value_def)

section \<open>Properties of the transport\<close>

lemma struct_unpack_pack:
  assumes "0 \<le> n" "n < 2 ^ 31"
  shows "\<exists>hdr. struct_pack_i n = Inr hdr \<and> length hdr = 4 \<and> struct_unpack_i hdr = Inr n"
proof -
  define m1 where "m1 = n div 256"
  define m2 where "m2 = m1 div 256"
  define m3 where "m3 = m2 div 256"
  have d8: "n div 256 = m1" and d16: "n div 65536 = m2" and d24: "n div 16777216 = m3"
    by (simp_all add: m1_def m2_def m3_def zdiv_zmult2_eq)
  have e1: "n = m1 * 256 + n mod 256" and e2: "m1 = m2 * 256 + m1 mod 256"
    and e3: "m2 = m3 * 256 + m2 mod 256"
    by (simp_all add: m1_def m2_def m3_def)
  have m3s: "0 \<le> m3" "m3 < 128" using assms by (simp_all add: d24 [symmetric])
  then have m3m: "m3 mod 256 = m3" by simp
  have sum: "m3 * 16777216 + (m2 mod 256) * 65536 + (m1 mod 256) * 256 + n mod 256 = n"
    using e1 e2 e3 by simp
  have pack: "struct_pack_i n = Inr [word_of_int m3, word_of_int m2, word_of_int m1, word_of_int n]"
    using assms by (simp add: struct_pack_i_def d8 d16 d24)
  have "struct_unpack_i [word_of_int m3, word_of_int m2, word_of_int m1, word_of_int n :: 8 word]
      = Inr n"
    using assms sum
    by (simp add: struct_unpack_i_def Let_def uint_word_of_int take_bit_eq_mod m3m)
  with pack show ?thesis by simp
qed

lemma recv_stream_nothing: "fst (recv_stream 0 arriving) = Inr []"
  by (cases arriving) auto

text \<open>
  In TCP mode the function sends the length prefix followed by the request. When the
  reply, a length prefix and a body of fewer than \<open>2 ^ 31\<close> octets, is all there at the
  first \<^verbatim>\<open>recv\<close>, the function returns the body.
\<close>

lemma send_as_req_tcp_reply_in_one_piece:
  assumes conn: "net SOCK_STREAM dc KERBEROS_PORT = Some s"
    and built: "build_as_req lib randint username domain g = (data, g')"
    and req: "struct_pack_i (int (length data)) = Inr request_length"
    and size: "length body < 2 ^ 31"
    and hdr: "struct_pack_i (int (length body)) = Inr response_length"
    and reply: "s (request_length @ data) = (response_length @ body) # later"
  shows "send_as_req lib randint net dc username domain False g = (Inr body, g')"
proof -
  from size have "int (length body) < 2 ^ 31"
    by (metis of_nat_less_iff of_nat_numeral of_nat_power)
  with struct_unpack_pack [of "int (length body)"] hdr
  have len: "length response_length = 4"
    and unp: "struct_unpack_i response_length = Inr (int (length body))"
    by auto
  show ?thesis
  proof (cases "body = []")
    case True
    with len have "recv_stream 4 ((response_length @ body) # later) = (Inr response_length, later)"
      by simp
    with conn built req reply unp True show ?thesis
      by (simp add: send_as_req_def recv_stream_nothing)
  next
    case False
    with len have "recv_stream 4 ((response_length @ body) # later)
        = (Inr response_length, body # later)"
      by simp
    with conn built req reply unp show ?thesis
      by (simp add: send_as_req_def)
  qed
qed

text \<open>
  C8 names a defect of the function. The request for \<open>svc$\<close> is the two octets
  \<open>6A 07\<close> in the example library, sent behind the prefix \<open>00 00 00 02\<close>. The peer that
  echoes at once gets the function to return the body \<open>6A 07\<close>. The peer whose echo
  arrives in two pieces gets it to return \<open>6A\<close> alone: the second \<^verbatim>\<open>recv\<close> returns the
  one octet of the body that has arrived, not the two that the prefix announces.
\<close>

theorem send_as_req_tcp_short_read:
  "fst (send_as_req example_lib example_randint example_net
          ''dc1.example.com'' ''svc$'' ''EXAMPLE.COM'' False 7) = Inr [0x6A, 7]
   \<and> fst (send_as_req example_lib example_randint example_net
          ''dc2.example.com'' ''svc$'' ''EXAMPLE.COM'' False 7) = Inr [0x6A]"
  by (simp add: send_as_req_def example_net_def KERBEROS_PORT_def build_as_req_def
      example_randint_def INT32_MAX_VAL_def example_lib_def as_req_of_def struct_pack_i_def
      struct_unpack_i_def)

end
